theory Spec2Isabelle
  imports Complex_Main
begin

section \<open>Python values, exceptions and name resolution\<close>

text \<open>
  The wrapper is the Python module \<open>cobalt/cobalt.py\<close>. Exceptions are values: every
  function that can raise returns \<open>py_error + 'a\<close>, with \<open>Inl\<close> the exception.
\<close>

datatype py_error =
    NameError string
  | ValueError string
  | AttributeError
  | OverflowError
  | TypeError
  | IndexError
  | StopIteration string
  | CalledProcessError

definition and_then :: "py_error + 'a \<Rightarrow> ('a \<Rightarrow> py_error + 'b) \<Rightarrow> py_error + 'b" where
  "and_then m f = (case m of Inl e \<Rightarrow> Inl e | Inr x \<Rightarrow> f x)"

fun sequence :: "(py_error + 'a) list \<Rightarrow> py_error + 'a list" where
  "sequence [] = Inr []"
| "sequence (m # ms) = and_then m (\<lambda>x. and_then (sequence ms) (\<lambda>xs. Inr (x # xs)))"

text \<open>
  The names bound at module level of \<open>cobalt.py\<close> (its imports, \<open>user\<close>, \<open>getoutput\<close> and
  the two classes), and the builtins the module uses. A method body resolves a bare name
  in its locals, then here: the body of an enclosing class is not a scope for it.
\<close>

definition module_globals :: "string list" where
  "module_globals =
     [''os'', ''re'', ''stat'', ''getuser'', ''check_output'', ''ceil'', ''mkstemp'',
      ''timedelta'', ''datetime'', ''user'', ''getoutput'', ''Cobalt'', ''UserPolicy'',
      ''__all__'']"

definition builtins :: "string list" where
  "builtins =
     [''isinstance'', ''int'', ''str'', ''len'', ''hasattr'', ''setattr'', ''repr'',
      ''range'', ''next'', ''max'', ''min'', ''eval'', ''print'', ''ValueError'',
      ''StopIteration'', ''KeyError'']"

definition lookup_name :: "string list \<Rightarrow> string \<Rightarrow> py_error + unit" where
  "lookup_name locals n =
     (if n \<in> set locals \<or> n \<in> set module_globals \<or> n \<in> set builtins
      then Inr () else Inl (NameError n))"

section \<open>Characters, integers and strings\<close>

text \<open>
  A string is a list of code points below 256, and the classes are those of Python's \<open>re\<close>
  for a \<open>str\<close> pattern on such text: \<open>\d\<close> is the decimal digits, which below 256 are
  \<open>0\<close> to \<open>9\<close>; \<open>\s\<close> and \<open>\w\<close> follow the Unicode properties of the code points above
  127 as well.
\<close>

definition code :: "char \<Rightarrow> nat" where
  "code c = of_char c"

definition is_digit :: "char \<Rightarrow> bool" where
  "is_digit c = (48 \<le> code c \<and> code c \<le> 57)"

definition is_alpha :: "char \<Rightarrow> bool" where
  "is_alpha c = ((65 \<le> code c \<and> code c \<le> 90) \<or> (97 \<le> code c \<and> code c \<le> 122))"

definition is_latin1_alnum :: "char \<Rightarrow> bool" where
  \<comment> \<open>the code points from 128 to 255 that are alphanumeric: the letters (all of
      0xC0..0xFF but the signs 0xD7 and 0xF7, and 0xAA, 0xB5, 0xBA), the superscript
      digits 0xB2, 0xB3, 0xB9 and the fractions 0xBC..0xBE\<close>
  "is_latin1_alnum c =
     (code c \<in> {0xAA, 0xB2, 0xB3, 0xB5, 0xB9, 0xBA, 0xBC, 0xBD, 0xBE} \<or>
      (0xC0 \<le> code c \<and> code c \<le> 0xFF \<and> code c \<noteq> 0xD7 \<and> code c \<noteq> 0xF7))"

definition is_word :: "char \<Rightarrow> bool" where
  \<comment> \<open>\<open>\w\<close>: alphanumeric, or the underscore\<close>
  "is_word c = (is_alpha c \<or> is_digit c \<or> c = CHR ''_'' \<or> is_latin1_alnum c)"

definition is_space :: "char \<Rightarrow> bool" where
  \<comment> \<open>\<open>\s\<close>: tab, newline, vertical tab, form feed, carriage return, the four separators
      0x1c..0x1f, space, and above 127 the next-line control 0x85 and the no-break space
      0xA0\<close>
  "is_space c =
     ((9 \<le> code c \<and> code c \<le> 13) \<or> (28 \<le> code c \<and> code c \<le> 32) \<or>
      code c = 0x85 \<or> code c = 0xA0)"

definition is_host :: "char \<Rightarrow> bool" where
  \<comment> \<open>\<open>[a-zA-Z0-9-_.]\<close>\<close>
  "is_host c = (is_alpha c \<or> is_digit c \<or> c = CHR ''-'' \<or> c = CHR ''_'' \<or> c = CHR ''.'')"

definition is_host_alpha :: "char \<Rightarrow> bool" where
  \<comment> \<open>\<open>[a-zA-Z_\-.]\<close>\<close>
  "is_host_alpha c = (is_alpha c \<or> c = CHR ''_'' \<or> c = CHR ''-'' \<or> c = CHR ''.'')"

definition is_host_colon :: "char \<Rightarrow> bool" where
  \<comment> \<open>\<open>[a-zA-Z0-9-_.:]\<close>\<close>
  "is_host_colon c = (is_host c \<or> c = CHR '':'')"

definition is_attr :: "char \<Rightarrow> bool" where
  \<comment> \<open>\<open>[a-zA-Z0-9-_.:,'"]\<close>\<close>
  "is_attr c = (is_host c \<or> c = CHR '':'' \<or> c = CHR '','' \<or> c = CHR 0x27 \<or> c = CHR 0x22)"

definition is_jobname :: "char \<Rightarrow> bool" where
  \<comment> \<open>the class of \<open>name_re\<close>: letters, digits, \<open><>'"+=-_/\|%$#@.:,\<close> tab, space,
      carriage return, \<open>!?()[]{}\<close>\<close>
  "is_jobname c =
     (is_alpha c \<or> is_digit c \<or> c \<in> set ''<>+=-_/|%$#@.:, !?()[]{}'' \<or>
      c = CHR 0x27 \<or> c = CHR 0x22 \<or> c = CHR 0x5C \<or> c = CHR 0x09 \<or> c = CHR 0x0D)"

definition digit_val :: "char \<Rightarrow> nat" where
  "digit_val c = code c - 48"

definition dec_value :: "string \<Rightarrow> nat" where
  "dec_value ds = foldl (\<lambda>a c. 10 * a + digit_val c) 0 ds"

fun split_char :: "char \<Rightarrow> string \<Rightarrow> string list" where
  \<comment> \<open>\<open>s.split(sep)\<close> for a separator of one character\<close>
  "split_char sep [] = [[]]"
| "split_char sep (c # cs) =
     (if c = sep then [] # split_char sep cs
      else (case split_char sep cs of p # ps \<Rightarrow> (c # p) # ps | [] \<Rightarrow> [[c]]))"

fun split_blank :: "string \<Rightarrow> string list" where
  \<comment> \<open>\<open>s.split('\n\n')\<close>\<close>
  "split_blank [] = [[]]"
| "split_blank [c] = [[c]]"
| "split_blank (a # b # cs) =
     (if a = CHR 0x0A \<and> b = CHR 0x0A then [] # split_blank cs
      else (case split_blank (b # cs) of p # ps \<Rightarrow> (a # p) # ps | [] \<Rightarrow> [[a]]))"

definition strip :: "string \<Rightarrow> string" where
  "strip s = rev (dropWhile is_space (rev (dropWhile is_space s)))"

definition py_int :: "string \<Rightarrow> py_error + int" where
  \<comment> \<open>\<open>int(s)\<close> for a string: surrounding whitespace, an optional sign, decimal digits
      with single underscores between them. Integers are unbounded; the limit that
      later interpreters put on the length of a numeral is not part of the model.\<close>
  "py_int s =
     (let t = strip s;
          neg = (case t of c # _ \<Rightarrow> c = CHR ''-'' | [] \<Rightarrow> False);
          body = (case t of c # r \<Rightarrow> if c = CHR ''-'' \<or> c = CHR ''+'' then r else t | [] \<Rightarrow> []);
          groups = split_char CHR ''_'' body
      in if list_all (\<lambda>g. g \<noteq> [] \<and> list_all is_digit g) groups
         then Inr ((if neg then - 1 else 1) * int (dec_value (concat groups)))
         else Inl (ValueError s))"

fun str_nat :: "nat \<Rightarrow> string" where
  "str_nat n =
     (if n < 10 then [char_of (48 + n)]
      else str_nat (n div 10) @ [char_of (48 + n mod 10)])"

declare str_nat.simps [simp del]

definition str_int :: "int \<Rightarrow> string" where
  \<comment> \<open>\<open>str(i)\<close>, also what \<open>'{}'.format(i)\<close> writes\<close>
  "str_int i = (if i < 0 then CHR ''-'' # str_nat (nat (- i)) else str_nat (nat i))"

fun join :: "string \<Rightarrow> string list \<Rightarrow> string" where
  \<comment> \<open>\<open>sep.join(xs)\<close>\<close>
  "join sep [] = []"
| "join sep [x] = x"
| "join sep (x # y # ys) = x @ sep @ join sep (y # ys)"

fun dict_set :: "('k \<times> 'v) list \<Rightarrow> 'k \<Rightarrow> 'v \<Rightarrow> ('k \<times> 'v) list" where
  \<comment> \<open>\<open>d[k] = v\<close> on a dict kept in insertion order\<close>
  "dict_set [] k v = [(k, v)]"
| "dict_set ((k', v') # d) k v = (if k' = k then (k, v) # d else (k', v') # dict_set d k v)"

section \<open>\<open>datetime.timedelta\<close>\<close>

text \<open>A duration is its number of microseconds.\<close>

type_synonym timedelta = int

definition timedelta_hms :: "int \<Rightarrow> int \<Rightarrow> int \<Rightarrow> py_error + timedelta" where
  \<comment> \<open>\<open>timedelta(hours=h, minutes=m, seconds=s)\<close>; more than 999999999 days overflow\<close>
  "timedelta_hms h m s =
     (let secs = (h * 60 + m) * 60 + s
      in if \<bar>secs div 86400\<bar> > 999999999 then Inl OverflowError else Inr (secs * 1000000))"

definition hms :: "string \<Rightarrow> py_error + int list" where
  \<comment> \<open>\<open>[int(i) for i in g.split(':')]\<close>\<close>
  "hms g = sequence (map py_int (split_char CHR '':'' g))"

definition timedelta_of :: "string \<Rightarrow> py_error + timedelta" where
  \<comment> \<open>\<open>hours, minutes, seconds = [...]\<close>, then \<open>timedelta(...)\<close>\<close>
  "timedelta_of g =
     and_then (hms g) (\<lambda>xs.
       case xs of [h, m, s] \<Rightarrow> timedelta_hms h m s | _ \<Rightarrow> Inl (ValueError g))"

section \<open>Python floats\<close>

text \<open>
  A float is an IEEE 754 binary64 number: a rational with a significand of 53 bits and an
  exponent from -1022 to 1023 (below that the subnormal numbers, multiples of \<open>2^-1074\<close>),
  an infinity, or not a number. The sign of a zero is not kept: no operation below tells
  the two zeros apart. Every operation rounds its exact result to the nearest float, a
  tie going to the even significand.
\<close>

datatype pyfloat = Finite rat | Infinity bool | NaN

definition pow2 :: "int \<Rightarrow> rat" where
  "pow2 k = (if 0 \<le> k then 2 ^ nat k else 1 / 2 ^ nat (- k))"

function bit_length :: "int \<Rightarrow> int" where
  "bit_length n = (if n \<le> 0 then 0 else 1 + bit_length (n div 2))"
  by pat_completeness auto
termination
  by (relation "measure nat") auto

declare bit_length.simps [simp del]

definition floor_log2 :: "rat \<Rightarrow> int" where
  \<comment> \<open>for \<open>x > 0\<close>, the \<open>e\<close> with \<open>2^e \<le> x < 2^(e+1)\<close>\<close>
  "floor_log2 x =
     (let (p, q) = quotient_of x;
          e = bit_length p - bit_length q
      in if pow2 e \<le> x then e else e - 1)"

definition round_half_even :: "rat \<Rightarrow> int" where
  "round_half_even x =
     (let n = \<lfloor>x\<rfloor>; d = x - of_int n
      in if d < 1 / 2 then n else if 1 / 2 < d then n + 1
         else if n mod 2 = 0 then n else n + 1)"

definition round_double :: "rat \<Rightarrow> pyfloat" where
  \<comment> \<open>the float nearest to \<open>x\<close>: the multiple of \<open>2^(e-52)\<close> nearest to it, for \<open>e\<close> the
      exponent of \<open>x\<close>; an infinity when that would be \<open>2^1024\<close> or beyond\<close>
  "round_double x =
     (if x = 0 then Finite 0
      else let e = max (floor_log2 \<bar>x\<bar>) (- 1022) in
           if 1024 \<le> e then Infinity (x < 0)
           else let quantum = pow2 (e - 52);
                    n = round_half_even (x / quantum)
                in if e = 1023 \<and> 2 ^ 53 \<le> \<bar>n\<bar> then Infinity (x < 0)
                   else Finite (of_int n * quantum))"

definition float_of_int :: "int \<Rightarrow> py_error + pyfloat" where
  \<comment> \<open>the conversion of the integer operand of a mixed operation\<close>
  "float_of_int n =
     (case round_double (of_int n) of
        Finite v \<Rightarrow> Inr (Finite v)
      | _ \<Rightarrow> Inl OverflowError)"

fun float_mul :: "pyfloat \<Rightarrow> pyfloat \<Rightarrow> pyfloat" where
  "float_mul (Finite x) (Finite y) = round_double (x * y)"
| "float_mul (Finite x) (Infinity t) = (if x = 0 then NaN else Infinity ((x < 0) \<noteq> t))"
| "float_mul (Infinity s) (Finite y) = (if y = 0 then NaN else Infinity (s \<noteq> (y < 0)))"
| "float_mul (Infinity s) (Infinity t) = Infinity (s \<noteq> t)"
| "float_mul NaN y = NaN"
| "float_mul x NaN = NaN"

definition py_ceil :: "pyfloat \<Rightarrow> py_error + int" where
  \<comment> \<open>\<open>math.ceil\<close>\<close>
  "py_ceil x =
     (case x of
        Finite r \<Rightarrow> Inr \<lceil>r\<rceil>
      | Infinity s \<Rightarrow> Inl OverflowError
      | NaN \<Rightarrow> Inl (ValueError ''cannot convert float NaN to integer''))"

definition ceil_product :: "int \<Rightarrow> pyfloat \<Rightarrow> py_error + int" where
  \<comment> \<open>\<open>ceil(n * f)\<close> for an integer \<open>n\<close> and a float \<open>f\<close>\<close>
  "ceil_product n f = and_then (float_of_int n) (\<lambda>x. py_ceil (float_mul x f))"

definition float_le_zero :: "pyfloat \<Rightarrow> bool" where
  \<comment> \<open>\<open>f <= 0\<close>\<close>
  "float_le_zero f = (case f of Finite r \<Rightarrow> r \<le> 0 | Infinity s \<Rightarrow> s | NaN \<Rightarrow> False)"

definition float_gt_one :: "pyfloat \<Rightarrow> bool" where
  \<comment> \<open>\<open>f > 1\<close>\<close>
  "float_gt_one f = (case f of Finite r \<Rightarrow> 1 < r | Infinity s \<Rightarrow> \<not> s | NaN \<Rightarrow> False)"

section \<open>Field extraction: the regular expressions\<close>

text \<open>
  Every pattern is \<open>.*LABEL\s*:\s*(group).*\<close> compiled with \<open>re.DOTALL\<close> and applied with
  \<open>match\<close>. The leading \<open>.*\<close> is greedy, so the engine tries the rest of the pattern at
  the latest start first: the match is the one at the greatest position where the rest
  matches. \<open>search_last p\<close> is that search, for \<open>p\<close> the rest of the pattern on a suffix;
  the trailing \<open>.*\<close> matches whatever is left.
\<close>

fun search_last :: "(string \<Rightarrow> 'a option) \<Rightarrow> string \<Rightarrow> 'a option" where
  "search_last p [] = p []"
| "search_last p (c # cs) =
     (case search_last p cs of Some r \<Rightarrow> Some r | None \<Rightarrow> p (c # cs))"

fun strip_prefix :: "string \<Rightarrow> string \<Rightarrow> string option" where
  "strip_prefix [] s = Some s"
| "strip_prefix (p # ps) [] = None"
| "strip_prefix (p # ps) (c # cs) = (if p = c then strip_prefix ps cs else None)"

definition label_value :: "string \<Rightarrow> (string \<Rightarrow> 'a option) \<Rightarrow> string \<Rightarrow> 'a option" where
  \<comment> \<open>\<open>LABEL\s*:\s*\<close> then the group. No group starts with whitespace or a colon, so
      the two greedy \<open>\s*\<close> never give anything back.\<close>
  "label_value lbl val s =
     (case strip_prefix lbl s of
        None \<Rightarrow> None
      | Some r \<Rightarrow>
          (case dropWhile is_space r of
             [] \<Rightarrow> None
           | c # r' \<Rightarrow> if c = CHR '':'' then val (dropWhile is_space r') else None))"

definition re_field :: "string \<Rightarrow> (string \<Rightarrow> 'a option) \<Rightarrow> string \<Rightarrow> 'a option" where
  "re_field lbl val = search_last (label_value lbl val)"

definition plus_group :: "(char \<Rightarrow> bool) \<Rightarrow> string \<Rightarrow> string option" where
  \<comment> \<open>the group \<open>[class]+\<close>\<close>
  "plus_group P s = (let g = takeWhile P s in if g = [] then None else Some g)"

fun sep_run :: "(char \<Rightarrow> bool) \<Rightarrow> char \<Rightarrow> string \<Rightarrow> string" where
  "sep_run P sep [] = []"
| "sep_run P sep (c # cs) =
     (if P c then c # sep_run P sep cs
      else if c = sep \<and> (case cs of d # _ \<Rightarrow> P d | [] \<Rightarrow> False) then c # sep_run P sep cs
      else [])"

definition sep_group :: "(char \<Rightarrow> bool) \<Rightarrow> char \<Rightarrow> string \<Rightarrow> string option" where
  \<comment> \<open>the group \<open>[class]+(sep[class]+)*\<close>, for a separator outside the class\<close>
  "sep_group P sep s =
     (case s of [] \<Rightarrow> None | c # _ \<Rightarrow> if P c then Some (sep_run P sep s) else None)"

definition hms_group :: "string \<Rightarrow> string option" where
  \<comment> \<open>the group \<open>\d+:\d+:\d+\<close>\<close>
  "hms_group s =
     (let h = takeWhile is_digit s; r1 = dropWhile is_digit s in
      case r1 of
        [] \<Rightarrow> None
      | c1 # t1 \<Rightarrow>
          let m = takeWhile is_digit t1; r2 = dropWhile is_digit t1 in
          (case r2 of
             [] \<Rightarrow> None
           | c2 # t2 \<Rightarrow>
               let sec = takeWhile is_digit t2 in
               if h \<noteq> [] \<and> c1 = CHR '':'' \<and> m \<noteq> [] \<and> c2 = CHR '':'' \<and> sec \<noteq> []
               then Some (h @ '':'' @ m @ '':'' @ sec) else None))"

definition bracket_groups :: "string \<Rightarrow> (string \<times> string) option" where
  \<comment> \<open>\<open>\[(\d+)-(\d+)\]\<close> at the start of the string: its two groups\<close>
  "bracket_groups s =
     (case s of
        [] \<Rightarrow> None
      | c0 # t0 \<Rightarrow>
          let a = takeWhile is_digit t0; r1 = dropWhile is_digit t0 in
          (case r1 of
             [] \<Rightarrow> None
           | c1 # t1 \<Rightarrow>
               let b = takeWhile is_digit t1; r2 = dropWhile is_digit t1 in
               (case r2 of
                  [] \<Rightarrow> None
                | c2 # _ \<Rightarrow>
                    if c0 = CHR ''['' \<and> a \<noteq> [] \<and> c1 = CHR ''-'' \<and> b \<noteq> [] \<and> c2 = CHR '']''
                    then Some (a, b) else None)))"

definition bracket_len :: "string \<Rightarrow> nat option" where
  \<comment> \<open>the length of \<open>\[\d+-\d+\]\<close> at the start of the string\<close>
  "bracket_len s = map_option (\<lambda>(a, b). length a + length b + 3) (bracket_groups s)"

definition item_rest_len :: "string \<Rightarrow> nat" where
  \<comment> \<open>after the first character of \<open>[a-zA-Z0-9-_.]+\<close>: the rest of the run, then
      \<open>(\[\d+-\d+\])?\<close>, then \<open>,?\<close>\<close>
  "item_rest_len s =
     (let n = length (takeWhile is_host s);
          b = (case bracket_len (drop n s) of None \<Rightarrow> 0 | Some k \<Rightarrow> k);
          c = (case drop (n + b) s of [] \<Rightarrow> 0 | d # _ \<Rightarrow> if d = CHR '','' then 1 else 0)
      in n + b + c)"

fun location_len :: "string \<Rightarrow> nat" where
  \<comment> \<open>the length of \<open>(([a-zA-Z0-9-_.]+)(\[\d+-\d+\])?,?)+\<close>, every repetition greedy;
      0 when not even one repetition matches\<close>
  "location_len [] = 0"
| "location_len (c # cs) =
     (if is_host c
      then (let k = item_rest_len cs in Suc k + location_len (drop k cs))
      else 0)"

definition location_group :: "string \<Rightarrow> string option" where
  "location_group s = (let n = location_len s in if n = 0 then None else Some (take n s))"

definition userhold_group :: "string \<Rightarrow> string option" where
  \<comment> \<open>the group \<open>(True|False)\<close>\<close>
  "userhold_group s =
     (case strip_prefix ''True'' s of
        Some _ \<Rightarrow> Some ''True''
      | None \<Rightarrow> (case strip_prefix ''False'' s of Some _ \<Rightarrow> Some ''False'' | None \<Rightarrow> None))"

definition attrs_group :: "string \<Rightarrow> string option" where
  \<comment> \<open>the group \<open>{[a-zA-Z0-9-_.:,'"]*}\<close>\<close>
  "attrs_group s =
     (case s of
        [] \<Rightarrow> None
      | c # t \<Rightarrow>
          (case dropWhile is_attr t of
             [] \<Rightarrow> None
           | d # _ \<Rightarrow>
               if c = CHR ''{'' \<and> d = CHR ''}'' then Some (c # takeWhile is_attr t @ [d])
               else None))"

definition kv_len :: "string \<Rightarrow> nat option" where
  \<comment> \<open>the length of \<open>[a-zA-Z0-9-_.]+=[a-zA-Z0-9-_.]+\<close> at the start of the string\<close>
  "kv_len s =
     (let k = takeWhile is_host s in
      case dropWhile is_host s of
        [] \<Rightarrow> None
      | c # t \<Rightarrow>
          let v = takeWhile is_host t in
          if k \<noteq> [] \<and> c = CHR ''='' \<and> v \<noteq> [] then Some (length k + 1 + length v) else None)"

fun more_kv_len :: "string \<Rightarrow> nat" where
  \<comment> \<open>the length of \<open>(:[a-zA-Z0-9-_.]+=[a-zA-Z0-9-_.]+)*\<close>\<close>
  "more_kv_len [] = 0"
| "more_kv_len (c # cs) =
     (if c = CHR '':''
      then (case kv_len cs of None \<Rightarrow> 0 | Some n \<Rightarrow> Suc n + more_kv_len (drop n cs))
      else 0)"

definition envs_group :: "string \<Rightarrow> string option" where
  "envs_group s =
     (case kv_len s of
        None \<Rightarrow> None
      | Some n \<Rightarrow> Some (take (n + more_kv_len (drop n s)) s))"

definition name_here :: "string \<Rightarrow> string option" where
  \<comment> \<open>the group of \<open>name_re\<close> and the newline that must follow it\<close>
  "name_here s =
     (case dropWhile is_jobname s of
        [] \<Rightarrow> None
      | c # _ \<Rightarrow> if c = CHR 0x0A then Some (takeWhile is_jobname s) else None)"

fun name_group :: "string \<Rightarrow> string option" where
  \<comment> \<open>\<open>\s*\<close> and then the group of \<open>name_re\<close>: space, tab and carriage return are in
      both, so the greedy \<open>\s*\<close> gives characters back, the longest run tried first\<close>
  "name_group [] = name_here []"
| "name_group (c # cs) =
     (if is_space c
      then (case name_group cs of Some g \<Rightarrow> Some g | None \<Rightarrow> name_here (c # cs))
      else name_here (c # cs))"

definition name_field :: "string \<Rightarrow> string option" where
  \<comment> \<open>\<open>Job.name_re\<close>\<close>
  "name_field =
     search_last (\<lambda>s.
       case strip_prefix ''JobName'' s of
         None \<Rightarrow> None
       | Some r \<Rightarrow>
           (case dropWhile is_space r of
              [] \<Rightarrow> None
            | c # r' \<Rightarrow> if c = CHR '':'' then name_group r' else None))"

section \<open>Jobs\<close>

text \<open>
  A job refers to its queue by name until \<open>get_queues_jobs\<close> links it to the queue
  object, which is the queue's position in the list of queues.
\<close>

datatype queue_ref = QName string | QRef nat

datatype attrs_value =
    AttrsDict "(string \<times> string) list"
  | AttrsObject string  \<comment> \<open>any other object, by its \<open>repr\<close>\<close>

datatype extra = XNone | XStr string | XDatetime int

record job =
  jobid :: int
  queue :: queue_ref
  user :: "string option"
  job_name :: "string option"
  job_users :: "string list option"
  walltime :: "timedelta option"
  runtime :: "timedelta option"
  start_time :: "timedelta option"
  queued_time :: "timedelta option"
  remaining_time :: "timedelta option"
  nodecount :: "int option"
  proccount :: "int option"
  location :: "string list"
  job_state :: "string option"
  user_hold :: "bool option"
  envs :: "(string \<times> string) list option"
  attrs :: "attrs_value option"
  kwargs :: "(string \<times> extra) list"

definition Job_init ::
  "int \<Rightarrow> queue_ref \<Rightarrow> string option \<Rightarrow> string option \<Rightarrow> string list option \<Rightarrow>
   timedelta option \<Rightarrow> timedelta option \<Rightarrow> timedelta option \<Rightarrow> timedelta option \<Rightarrow>
   timedelta option \<Rightarrow> int option \<Rightarrow> int option \<Rightarrow> string list \<Rightarrow> string option \<Rightarrow>
   bool option \<Rightarrow> (string \<times> string) list option \<Rightarrow> attrs_value option \<Rightarrow> 'd \<Rightarrow>
   (string \<times> extra) list \<Rightarrow> job" where
  \<comment> \<open>\<open>Job.__init__\<close>: the parameter \<open>dependencies\<close> is accepted and never stored\<close>
  "Job_init jobid' queue' user' name' users' walltime' runtime' start_time' queued_time'
     remaining_time' nodecount' proccount' location' state' user_hold' envs' attrs'
     dependencies' kwargs' =
     \<lparr>jobid = jobid', queue = queue', user = user', job_name = name', job_users = users',
      walltime = walltime', runtime = runtime', start_time = start_time',
      queued_time = queued_time', remaining_time = remaining_time', nodecount = nodecount',
      proccount = proccount', location = location', job_state = state',
      user_hold = user_hold', envs = envs', attrs = attrs', kwargs = kwargs'\<rparr>"

datatype pyobj = PJob job | PStr string | PInt int | PNone

definition Job_eq :: "job \<Rightarrow> pyobj \<Rightarrow> py_error + bool option" where
  \<comment> \<open>\<open>Job.__eq__\<close>: the bare name \<open>Job\<close> is resolved first; the method returns \<open>None\<close>
      when no branch is taken\<close>
  "Job_eq self other =
     and_then (lookup_name [''self'', ''other''] ''Job'') (\<lambda>_.
       case other of
         PJob b \<Rightarrow> Inr (Some (jobid self = jobid b))
       | PStr t \<Rightarrow> and_then (py_int t) (\<lambda>n. Inr (Some (jobid self = n)))
       | PInt n \<Rightarrow> Inr (Some (jobid self = n))
       | PNone \<Rightarrow> Inr None)"

definition opt_then :: "'a option \<Rightarrow> ('a \<Rightarrow> py_error + 'b) \<Rightarrow> py_error + 'b option" where
  \<comment> \<open>\<open>x = r.match(s)\<close>, then \<open>if x is not None: x = f(x.group(1))\<close>\<close>
  "opt_then m f = (case m of None \<Rightarrow> Inr None | Some g \<Rightarrow> and_then (f g) (\<lambda>v. Inr (Some v)))"

definition fragment_match ::
  "string \<Rightarrow> (string \<times> string option \<times> (string \<times> string) option) option" where
  \<comment> \<open>\<open>([a-zA-Z_\-.]+)(\d+)?(\[(\d+)-(\d+)\])?\<close> applied with \<open>match\<close>: the groups
      \<open>name\<close>, \<open>n\<close> and \<open>(s, e)\<close>\<close>
  "fragment_match l =
     (let nm = takeWhile is_host_alpha l; r = dropWhile is_host_alpha l;
          n = takeWhile is_digit r; r' = dropWhile is_digit r
      in if nm = [] then None
         else Some (nm, if n = [] then None else Some n, bracket_groups r'))"

definition expand_fragment :: "string \<Rightarrow> py_error + string list" where
  \<comment> \<open>one round of the loop over \<open>locations\<close>: what it adds to \<open>location\<close>\<close>
  "expand_fragment l =
     (case fragment_match l of
        None \<Rightarrow> Inl AttributeError
      | Some (nm, n, se) \<Rightarrow>
          (case se of
             None \<Rightarrow> Inr [l]
           | Some (s, e) \<Rightarrow>
               if n \<noteq> None then Inr [l]
               else and_then (py_int s) (\<lambda>i. and_then (py_int e) (\<lambda>j.
                      Inr (map (\<lambda>k. nm @ str_int k) [i..j])))))"

fun expand_locations :: "string list \<Rightarrow> string list \<Rightarrow> py_error + string list" where
  "expand_locations location' [] = Inr location'"
| "expand_locations location' (l # ls) =
     and_then (expand_fragment l) (\<lambda>xs. expand_locations (location' @ xs) ls)"

definition envs_of :: "string \<Rightarrow> py_error + (string \<times> string) list" where
  \<comment> \<open>\<open>{kv.split('=')[0]: kv.split('=')[1] for kv in g.split(':')}\<close>\<close>
  "envs_of g =
     foldl (\<lambda>acc kv. and_then acc (\<lambda>d.
              case split_char CHR ''='' kv of
                k # v # _ \<Rightarrow> Inr (dict_set d k v)
              | _ \<Rightarrow> Inl IndexError))
       (Inr []) (split_char CHR '':'' g)"

definition dependencies_of :: "string \<Rightarrow> py_error + int list" where
  \<comment> \<open>\<open>[int(i) for i in g.split(':') if i != '']\<close>\<close>
  "dependencies_of g = sequence (map py_int (filter (\<lambda>i. i \<noteq> []) (split_char CHR '':'' g)))"

definition from_string ::
  "(string \<Rightarrow> py_error + attrs_value) \<Rightarrow> string \<Rightarrow> py_error + job" where
  \<comment> \<open>\<open>Job.from_string\<close>. \<open>py_eval\<close> is the interpreter's \<open>eval\<close> on the text of the \<open>attrs\<close>
      field: the object it returns, or the exception it raises. The defaults assigned first to \<open>user\<close>, \<open>name\<close>, \<open>users\<close>, \<open>state\<close>,
      \<open>envs\<close>, \<open>attrs\<close> and \<open>dependencies\<close> are overwritten by the result of \<open>match\<close>;
      \<open>location\<close> and \<open>start_time\<close> keep theirs, the match being held in another variable.\<close>
  "from_string py_eval s =
     (case re_field ''JobID'' (plus_group is_digit) s of
        None \<Rightarrow> Inl AttributeError
      | Some g \<Rightarrow>
     and_then (py_int g) (\<lambda>jobid'.
     case re_field ''Queue'' (plus_group is_host) s of
        None \<Rightarrow> Inl AttributeError
      | Some queue' \<Rightarrow>
     let user' = re_field ''User'' (plus_group is_word) s;
         name' = name_field s;
         users' = map_option (split_char CHR '':'')
                    (re_field ''user_list'' (sep_group is_word CHR '':'') s)
     in
     and_then (opt_then (re_field ''WallTime'' hms_group s) timedelta_of) (\<lambda>walltime'.
     and_then (opt_then (re_field ''RunTime'' hms_group s) timedelta_of) (\<lambda>runtime'.
     and_then (opt_then (re_field ''StartTime'' hms_group s) timedelta_of) (\<lambda>start_time'.
     and_then (opt_then (re_field ''QueuedTime'' hms_group s) timedelta_of) (\<lambda>queued_time'.
     and_then (opt_then (re_field ''TimeRemaining'' hms_group s) timedelta_of) (\<lambda>remaining_time'.
     and_then (opt_then (re_field ''Nodes'' (plus_group is_digit) s) py_int) (\<lambda>nodecount'.
     and_then (opt_then (re_field ''Procs'' (plus_group is_digit) s) py_int) (\<lambda>proccount'.
     and_then (case re_field ''Location'' location_group s of
                 None \<Rightarrow> Inr []
               | Some g \<Rightarrow> expand_locations [] (split_char CHR '','' g)) (\<lambda>location'.
     let state' = re_field ''State'' (plus_group is_word) s;
         user_hold' = map_option (\<lambda>g. g \<noteq> ''False'') (re_field ''UserHold'' userhold_group s)
     in
     and_then (opt_then (re_field ''Envs'' envs_group s) envs_of) (\<lambda>envs'.
     and_then (opt_then (re_field ''attrs'' attrs_group s) py_eval) (\<lambda>attrs'.
     and_then (opt_then (re_field ''Dependencies'' (sep_group is_digit CHR '':'') s)
                 dependencies_of) (\<lambda>dependencies'.
     Inr (Job_init jobid' (QName queue') user' name' users' walltime' runtime' start_time'
            queued_time' remaining_time' nodecount' proccount' location' state' user_hold'
            envs' attrs' dependencies' []))))))))))))))"

section \<open>Queues\<close>

text \<open>
  A queue holds the jobs appended to it by value: no job is modified after it has been
  appended, so the copy reads as the shared object does.
\<close>

record queue =
  jobs :: "job list"
  name :: string
  users :: "string list"
  groups :: "string list"
  mintime :: timedelta
  maxtime :: timedelta
  maxrunning :: int
  maxqueued :: int
  maxusernodes :: int
  maxnodehours :: int
  totalnodes :: int
  state :: string

definition defaults :: "(string \<times> int \<times> int) list" where
  \<comment> \<open>\<open>Queue.defaults\<close>: queue name, \<open>maxusernodes\<close>, \<open>totalnodes\<close>\<close>
  "defaults =
     [(''R.sc_workshop'', 0, 0), (''atos'', 1, 1), (''cl'', 0, 0), (''comanche_B1'', 0, 0),
      (''comanche_B1_smt2_noturbo'', 0, 0), (''comanche_B1_smt2_turbo'', 0, 0),
      (''comanche_B1_smt4_noturbo'', 0, 0), (''comanche_B1_smt4_turbo'', 0, 0),
      (''dgx'', 1, 1), (''epyc_7601'', 2, 2), (''firestones'', 1, 1), (''fpga_385a'', 1, 1),
      (''gomez'', 4, 4), (''gomez_dual_hca'', 1, 1), (''gpu_mules'', 0, 0),
      (''gpu_power9_v100_smx2'', 1, 1), (''gpu_rtx8000'', 1, 1), (''gpu_v100_smx2'', 3, 3),
      (''iris'', 0, 0), (''iris_debug'', 0, 0), (''it'', 13, 13), (''k20x'', 1, 1),
      (''knl_7210'', 10, 10), (''knl_7250'', 2, 2), (''mustangs'', 2, 2), (''nurburg'', 0, 0),
      (''skylake_8176'', 1, 1), (''skylake_8180'', 12, 12),
      (''skylake_8180_skylake12'', 1, 1), (''skylake_p'', 0, 0), (''thing'', 8, 8)]"

definition queue_name_field :: "string \<Rightarrow> string option" where
  \<comment> \<open>\<open>Queue.name_re\<close>, \<open>.*Name:\s*([a-zA-Z0-9-_.]+)\s*?\<close>: no whitespace before the
      colon, and the lazy \<open>\s*?\<close> takes nothing\<close>
  "queue_name_field =
     search_last (\<lambda>s.
       case strip_prefix ''Name:'' s of
         None \<Rightarrow> None
       | Some r \<Rightarrow> plus_group is_host (dropWhile is_space r))"

definition local_int :: "(string \<times> int) list \<Rightarrow> string \<Rightarrow> py_error + int" where
  \<comment> \<open>a name read where a number is needed: a local has its value, a module-level name
      or a builtin is no number, any other name is not defined\<close>
  "local_int locals n =
     (case map_of locals n of
        Some v \<Rightarrow> Inr v
      | None \<Rightarrow> if n \<in> set module_globals \<or> n \<in> set builtins then Inl TypeError
                else Inl (NameError n))"

definition mintime_of :: "string \<Rightarrow> py_error + timedelta" where
  \<comment> \<open>the branch of \<open>Queue.__init__\<close> for a \<open>MinTime\<close> field: \<open>hours, minutes, seconds =
      [...]\<close>, then \<open>timedelta(hours=hours, minutes=minutes, seconds=sedonds)\<close>\<close>
  "mintime_of g =
     and_then (hms g) (\<lambda>xs.
       case xs of
         [hours, minutes, seconds] \<Rightarrow>
           and_then
             (local_int [(''hours'', hours), (''minutes'', minutes), (''seconds'', seconds)]
                ''sedonds'')
             (\<lambda>sec. timedelta_hms hours minutes sec)
       | _ \<Rightarrow> Inl (ValueError g))"

definition Queue_init :: "string \<Rightarrow> py_error + queue" where
  \<comment> \<open>\<open>Queue.__init__\<close>\<close>
  "Queue_init qstat_queue_output =
     (case queue_name_field qstat_queue_output of
        None \<Rightarrow> Inl (ValueError (''Invalid queue initializer: '' @ qstat_queue_output))
      | Some name' \<Rightarrow>
     let users' = (case re_field ''Users'' (plus_group is_host_colon) qstat_queue_output of
                     None \<Rightarrow> [] | Some g \<Rightarrow> split_char CHR '':'' g);
         groups' = (case re_field ''Groups'' (plus_group is_host_colon) qstat_queue_output of
                      None \<Rightarrow> [] | Some g \<Rightarrow> split_char CHR '':'' g)
     in
     and_then (case re_field ''MinTime'' hms_group qstat_queue_output of
                 None \<Rightarrow> timedelta_hms 0 10 0
               | Some g \<Rightarrow> mintime_of g) (\<lambda>mintime'.
     and_then (case re_field ''MaxTime'' hms_group qstat_queue_output of
                 None \<Rightarrow> timedelta_hms 1 0 0
               | Some g \<Rightarrow> timedelta_of g) (\<lambda>maxtime'.
     and_then (case re_field ''MaxRunning'' (plus_group is_digit) qstat_queue_output of
                 None \<Rightarrow> Inr 0 | Some g \<Rightarrow> py_int g) (\<lambda>maxrunning'.
     and_then (case re_field ''MaxQueued'' (plus_group is_digit) qstat_queue_output of
                 None \<Rightarrow> Inr 0 | Some g \<Rightarrow> py_int g) (\<lambda>maxqueued'.
     and_then (case re_field ''MaxUserNodes'' (plus_group is_digit) qstat_queue_output of
                 None \<Rightarrow> Inr (case map_of defaults name' of
                              Some (mu, tn) \<Rightarrow> mu | None \<Rightarrow> 0)
               | Some g \<Rightarrow> py_int g) (\<lambda>maxusernodes'.
     and_then (case re_field ''MaxNodeHours'' (plus_group is_digit) qstat_queue_output of
                 None \<Rightarrow> Inr 0 | Some g \<Rightarrow> py_int g) (\<lambda>maxnodehours'.
     and_then (case re_field ''TotalNodes'' (plus_group is_digit) qstat_queue_output of
                 None \<Rightarrow> Inr (case map_of defaults name' of
                              Some (mu, tn) \<Rightarrow> tn | None \<Rightarrow> 0)
               | Some g \<Rightarrow> py_int g) (\<lambda>totalnodes'.
     let state' = (case re_field ''State'' (plus_group is_word) qstat_queue_output of
                     None \<Rightarrow> ''unknown'' | Some g \<Rightarrow> g)
     in Inr \<lparr>jobs = [], name = name', users = users', groups = groups',
             mintime = mintime', maxtime = maxtime', maxrunning = maxrunning',
             maxqueued = maxqueued', maxusernodes = maxusernodes',
             maxnodehours = maxnodehours', totalnodes = totalnodes',
             state = state'\<rparr>))))))))"

section \<open>\<open>get_queues_jobs\<close>: parsing and linking\<close>

fun find_index :: "('a \<Rightarrow> bool) \<Rightarrow> 'a list \<Rightarrow> nat option" where
  "find_index P [] = None"
| "find_index P (x # xs) = (if P x then Some 0 else map_option Suc (find_index P xs))"

definition ref_name :: "queue list \<Rightarrow> queue_ref \<Rightarrow> string" where
  \<comment> \<open>what \<open>q.name == j.queue\<close> compares \<open>q.name\<close> with: the string itself, or through
      the reflected \<open>Queue.__eq__\<close> the name of the queue object\<close>
  "ref_name qs r = (case r of QName n \<Rightarrow> n | QRef k \<Rightarrow> name (qs ! k))"

definition find_queue :: "queue list \<Rightarrow> job \<Rightarrow> nat option" where
  \<comment> \<open>\<open>next((q for q in queues if q.name == j.queue), None)\<close>, as a position\<close>
  "find_queue qs j = find_index (\<lambda>q. name q = ref_name qs (queue j)) qs"

definition connect_job :: "string \<Rightarrow> queue list \<Rightarrow> job \<Rightarrow> queue list \<times> job" where
  \<comment> \<open>one round of the loop that connects jobs and queues\<close>
  "connect_job local_user qs j =
     (case find_queue qs j of
        None \<Rightarrow> (qs, j)
      | Some k \<Rightarrow>
          let j' = j\<lparr>queue := QRef k\<rparr>;
              q = qs ! k;
              q1 = q\<lparr>jobs := jobs q @ [j']\<rparr>;
              q2 = (if user j' = Some local_user
                    then q1\<lparr>maxusernodes := maxusernodes q1 - 1\<rparr> else q1)
          in (qs[k := q2], j'))"

fun connect :: "string \<Rightarrow> queue list \<Rightarrow> job list \<Rightarrow> queue list \<times> job list" where
  "connect local_user qs [] = (qs, [])"
| "connect local_user qs (j # js) =
     (let (qs1, j1) = connect_job local_user qs j;
          (qs2, js2) = connect local_user qs1 js
      in (qs2, j1 # js2))"

definition parse_queues :: "string \<Rightarrow> py_error + queue list" where
  "parse_queues out =
     sequence (map Queue_init (filter (\<lambda>l. queue_name_field l \<noteq> None) (split_blank out)))"

definition parse_jobs ::
  "(string \<Rightarrow> py_error + attrs_value) \<Rightarrow> string \<Rightarrow> py_error + job list" where
  "parse_jobs py_eval out =
     sequence (map (from_string py_eval)
       (filter (\<lambda>l. re_field ''JobID'' (plus_group is_digit) l \<noteq> None) (split_blank out)))"

definition get_queues_jobs ::
  "string \<Rightarrow> (string \<Rightarrow> py_error + attrs_value) \<Rightarrow> (string \<Rightarrow> py_error + string) \<Rightarrow>
   py_error + (queue list \<times> job list)" where
  \<comment> \<open>\<open>local_user\<close> is the module's \<open>user\<close>; \<open>getoutput\<close> is the scheduler's answer to a
      command line\<close>
  "get_queues_jobs local_user py_eval getoutput =
     and_then (getoutput ''qstat -Q -l'') (\<lambda>qout.
     and_then (parse_queues qout) (\<lambda>qs.
     and_then (getoutput ''qstat -f -l'') (\<lambda>jout.
     and_then (parse_jobs py_eval jout) (\<lambda>js.
     Inr (connect local_user qs js)))))"

definition get_queues ::
  "string \<Rightarrow> (string \<Rightarrow> py_error + attrs_value) \<Rightarrow> (string \<Rightarrow> py_error + string) \<Rightarrow>
   py_error + queue list" where
  "get_queues local_user py_eval getoutput =
     and_then (get_queues_jobs local_user py_eval getoutput) (\<lambda>(qs, js). Inr qs)"

section \<open>\<open>Queue.submit\<close>\<close>

text \<open>
  What \<open>submit\<close> does to the outside is a log of effects, in order. The temporary file's
  name, the instant of \<open>datetime.now()\<close> and the outcome of \<open>int(getoutput(command))\<close>
  (an exception, or the job identifier) are parameters.
\<close>

datatype effect = Mkstemp string | FileWrite string | Chmod string | Subprocess string

definition pad :: "nat \<Rightarrow> nat \<Rightarrow> string" where
  "pad w n = replicate (w - length (str_nat n)) CHR ''0'' @ str_nat n"

definition str_timedelta :: "timedelta \<Rightarrow> string" where
  \<comment> \<open>\<open>str\<close> of a \<open>timedelta\<close>: \<open>[D day[s], ]H:MM:SS[.UUUUUU]\<close>\<close>
  "str_timedelta td =
     (let days = td div 86400000000; rest = td mod 86400000000;
          secs = rest div 1000000; us = rest mod 1000000;
          hm = str_int (secs div 3600) @ '':'' @ pad 2 (nat ((secs div 60) mod 60)) @ '':'' @
               pad 2 (nat (secs mod 60));
          d = (if days = 0 then []
               else str_int days @ '' day'' @ (if \<bar>days\<bar> \<noteq> 1 then ''s'' else []) @ '', '');
          u = (if us = 0 then [] else ''.'' @ pad 6 (nat us))
      in d @ hm @ u)"

definition dependency_id :: "pyobj \<Rightarrow> py_error + int" where
  \<comment> \<open>\<open>d.jobid if isinstance(d, Cobalt.Job) else int(d)\<close>\<close>
  "dependency_id d =
     (case d of
        PJob j \<Rightarrow> Inr (jobid j)
      | PInt n \<Rightarrow> Inr n
      | PStr t \<Rightarrow> py_int t
      | PNone \<Rightarrow> Inl TypeError)"

definition join_ints :: "int list \<Rightarrow> py_error + string" where
  \<comment> \<open>\<open>':'.join(xs)\<close> for a list of integers: \<open>str.join\<close> takes strings only\<close>
  "join_ints xs = (if xs = [] then Inr [] else Inl TypeError)"

definition directive :: "string \<Rightarrow> string option \<Rightarrow> (py_error + string) list" where
  \<comment> \<open>\<open>if x is not None: file.write('#COBALT --opt {}\n'.format(x))\<close>\<close>
  "directive opt x =
     (case x of
        None \<Rightarrow> []
      | Some v \<Rightarrow> [Inr (''#COBALT --'' @ opt @ '' '' @ v @ [CHR 0x0A])])"

definition items :: "(string \<times> string) list \<Rightarrow> string" where
  \<comment> \<open>\<open>':'.join(['{!s}={!s}'.format(k, v) for k, v in d.items()])\<close>\<close>
  "items d = join '':'' (map (\<lambda>(k, v). k @ ''='' @ v) d)"

definition script ::
  "string \<Rightarrow> int \<Rightarrow> string option \<Rightarrow> string option \<Rightarrow> string option \<Rightarrow> string option \<Rightarrow>
   string list \<Rightarrow> string option \<Rightarrow> (string \<times> string) list \<Rightarrow> pyobj list \<Rightarrow> string list \<Rightarrow>
   (string \<times> string) list \<Rightarrow> bool \<Rightarrow> string option \<Rightarrow> string option \<Rightarrow> string option \<Rightarrow>
   (py_error + string) list" where
  \<comment> \<open>the \<open>file.write\<close> calls of \<open>submit\<close>, in order: the text written, or the exception
      raised while building it\<close>
  "script cmd proccount' cwd stderr stdout output_prefix users' project attrs' dependencies
     geometry env hold input_file email umask =
     [Inr (''#!/bin/bash'' @ [CHR 0x0A, CHR 0x0A]),
      Inr (''#COBALT --user_list '' @ join '':'' users' @ [CHR 0x0A])] @
     (if proccount' > 1
      then [Inr (''#COBALT --proccount '' @ str_int proccount' @ [CHR 0x0A])] else []) @
     directive ''cwd'' cwd @
     directive ''error'' stderr @
     directive ''output'' stdout @
     directive ''outputprefix'' output_prefix @
     directive ''run_project'' (map_option (\<lambda>p. join '':'' (map (\<lambda>c. [c]) p)) project) @
     (if length attrs' > 0 then directive ''attrs'' (Some (items attrs')) else []) @
     (if length dependencies > 0
      then [and_then (sequence (map dependency_id dependencies)) (\<lambda>ids.
            and_then (join_ints ids) (\<lambda>t.
            Inr (''#COBALT --dependencies '' @ t @ [CHR 0x0A])))]
      else []) @
     (if length geometry > 0 then directive ''geometry'' (Some (join ''x'' geometry)) else []) @
     (if length env > 0 then directive ''env'' (Some (items env)) else []) @
     (if hold then [Inr (''#COBALT --held'' @ [CHR 0x0A])] else []) @
     directive ''input_file'' input_file @
     directive ''notify'' email @
     directive ''umask'' umask @
     [Inr [CHR 0x0A]] @
     (case cwd of None \<Rightarrow> [] | Some d \<Rightarrow> [Inr (''cd '' @ d @ [CHR 0x0A])]) @
     [Inr (cmd @ [CHR 0x0A])]"

fun run_writes :: "(py_error + string) list \<Rightarrow> effect list \<times> py_error option" where
  "run_writes [] = ([], None)"
| "run_writes (Inl e # ws) = ([], Some e)"
| "run_writes (Inr t # ws) = (let (es, r) = run_writes ws in (FileWrite t # es, r))"

definition opt_extra :: "string option \<Rightarrow> extra" where
  "opt_extra x = (case x of None \<Rightarrow> XNone | Some v \<Rightarrow> XStr v)"

definition submit ::
  "string \<Rightarrow> string \<Rightarrow> (string \<Rightarrow> py_error + int) \<Rightarrow> int \<Rightarrow> queue \<Rightarrow>
   string \<Rightarrow> int \<Rightarrow> int \<Rightarrow> timedelta option \<Rightarrow> string option \<Rightarrow> string option \<Rightarrow>
   string option \<Rightarrow> string option \<Rightarrow> string option \<Rightarrow> string list \<Rightarrow> string option \<Rightarrow>
   (string \<times> string) list \<Rightarrow> pyobj list \<Rightarrow> string list \<Rightarrow> (string \<times> string) list \<Rightarrow>
   bool \<Rightarrow> string option \<Rightarrow> string option \<Rightarrow> string option \<Rightarrow> bool \<Rightarrow>
   (py_error + job) \<times> queue \<times> effect list" where
  \<comment> \<open>\<open>Queue.submit\<close>: the result, the queue afterwards, and the effects. A queue built
      by \<open>Queue.__init__\<close> has \<open>jobs\<close>, \<open>maxusernodes\<close> and \<open>totalnodes\<close>, so the three
      \<open>hasattr\<close> tests hold.\<close>
  "submit local_user filename qsub now self cmd nodecount' proccount' time jobname cwd stderr
     stdout output_prefix users' project attrs' dependencies geometry env hold input_file
     email umask no_oversuscribe =
     (let num_used = int (length (filter (\<lambda>j. user j = Some local_user) (jobs self))) in
      if num_used + nodecount' > maxusernodes self
      then (Inl (StopIteration
                  (''Submition on '' @ name self @ '' cancelled due to user policy.'')),
            self, [])
      else
      let num_queued = int (length (jobs self)) in
      if no_oversuscribe \<and> num_queued + nodecount' > totalnodes self
      then (Inl (StopIteration
                  (''Submition on '' @ name self @ '' cancelled because queue is busy.'')),
            self, [])
      else
      let time' = (case time of Some t \<Rightarrow> t | None \<Rightarrow> maxtime self);
          (writes, err) = run_writes
            (script cmd proccount' cwd stderr stdout output_prefix users' project attrs'
               dependencies geometry env hold input_file email umask)
      in
      case err of
        Some e \<Rightarrow> (Inl e, self, Mkstemp filename # writes)
      | None \<Rightarrow>
          let command = ''qsub --queue '' @ name self @ '' -n '' @ str_int nodecount' @
                        '' -t '' @ str_timedelta time' @
                        (case jobname of None \<Rightarrow> [] | Some n \<Rightarrow> '' --jobname '' @ n) @
                        '' '' @ filename;
              effects = Mkstemp filename # writes @ [Chmod filename, Subprocess command]
          in
          (case qsub command of
             Inl e \<Rightarrow> (Inl e, self, effects)
           | Inr jobid' \<Rightarrow>
               (Inr (Job_init jobid' (QName (name self)) (Some local_user) jobname
                       (Some users') (Some time') (Some 0) None (Some 0) (Some time')
                       (Some nodecount') (Some proccount') [] (Some ''queued'') (Some hold)
                       (Some env) (Some (AttrsDict attrs')) dependencies
                       [(''project'', opt_extra project), (''submit_time'', XDatetime now),
                        (''notify'', opt_extra email)]),
                self\<lparr>maxusernodes := maxusernodes self - 1\<rparr>, effects)))"

section \<open>\<open>UserPolicy\<close>\<close>

record policy =
  office_day_start :: timedelta
  office_day_stop :: timedelta
  office_max_occupancy :: pyfloat
  max_occupancy :: pyfloat
  office_maxtime :: timedelta
  policy_maxtime :: timedelta

record datetime =
  weekday :: int
  hour :: int
  minute :: int
  second :: int

definition UserPolicy_init ::
  "timedelta \<Rightarrow> timedelta \<Rightarrow> pyfloat \<Rightarrow> pyfloat \<Rightarrow> timedelta \<Rightarrow> timedelta \<Rightarrow>
   py_error + policy" where
  "UserPolicy_init start stop office_occ occ office_mt mt =
     (if float_le_zero occ \<or> float_gt_one occ
      then Inl (ValueError ''Policy nodes occupancy is a float in ]0, 1].'')
      else Inr \<lparr>office_day_start = start, office_day_stop = stop,
                office_max_occupancy = office_occ, max_occupancy = occ,
                office_maxtime = office_mt, policy_maxtime = mt\<rparr>)"

definition nice_user :: policy where
  \<comment> \<open>the policy \<open>cobalt/__main__.py\<close> builds; 0.25 and 0.5 are floats exactly\<close>
  "nice_user =
     \<lparr>office_day_start = 7 * 3600 * 1000000, office_day_stop = 21 * 3600 * 1000000,
      office_max_occupancy = Finite (1 / 4), max_occupancy = Finite (1 / 2),
      office_maxtime = 30 * 60 * 1000000, policy_maxtime = 2 * 3600 * 1000000\<rparr>"

definition regime :: "policy \<Rightarrow> int \<Rightarrow> timedelta \<Rightarrow> pyfloat \<times> timedelta" where
  \<comment> \<open>the occupancy fraction and the wall-time ceiling \<open>get_queues\<close> goes on with, for
      the weekday index and the time of day \<open>dt\<close>\<close>
  "regime p wd dt =
     (if wd < 5 \<or> dt < office_day_start p \<or> dt > office_day_stop p
      then (office_max_occupancy p, office_maxtime p)
      else (max_occupancy p, policy_maxtime p))"

definition num_used :: "string \<Rightarrow> queue \<Rightarrow> int" where
  \<comment> \<open>\<open>len([j for j in q.jobs if j.user == user])\<close>\<close>
  "num_used local_user q = int (length (filter (\<lambda>j. user j = Some local_user) (jobs q)))"

definition policy_queue :: "string \<Rightarrow> pyfloat \<Rightarrow> timedelta \<Rightarrow> queue \<Rightarrow> py_error + queue" where
  \<comment> \<open>one round of the loop over the queues: the queue as the round leaves it, or the
      exception of \<open>ceil(q.totalnodes * max_occupancy)\<close>\<close>
  "policy_queue local_user occ mt q =
     (let n = num_used local_user q in
      and_then (ceil_product (totalnodes q) occ) (\<lambda>c.
      let m = max 1 c
      in Inr (q\<lparr>maxusernodes := max (if n = 0 then 1 else 0) (m - n),
                 maxtime := min mt (maxtime q)\<rparr>)))"

definition apply_policy ::
  "string \<Rightarrow> pyfloat \<Rightarrow> timedelta \<Rightarrow> queue list \<Rightarrow> py_error + queue list" where
  \<comment> \<open>the loop over the queues, then \<open>[q for q in queues if q.maxusernodes > 0]\<close>\<close>
  "apply_policy local_user occ mt qs =
     and_then (sequence (map (policy_queue local_user occ mt) qs)) (\<lambda>qs'.
     Inr (filter (\<lambda>q. maxusernodes q > 0) qs'))"

definition UserPolicy_get_queues ::
  "policy \<Rightarrow> string \<Rightarrow> (string \<Rightarrow> py_error + attrs_value) \<Rightarrow>
   (string \<Rightarrow> py_error + string) \<Rightarrow> datetime \<Rightarrow> py_error + queue list" where
  "UserPolicy_get_queues p local_user py_eval getoutput now =
     and_then (get_queues local_user py_eval getoutput) (\<lambda>qs.
     and_then (timedelta_hms (hour now) (minute now) (second now)) (\<lambda>dt.
     let (occ, mt) = regime p (weekday now) dt
     in apply_policy local_user occ mt qs))"

section \<open>Notions for the proofs, and an example system\<close>

definition same_names :: "queue list \<Rightarrow> queue list \<Rightarrow> bool" where
  "same_names qs' qs = (length qs' = length qs \<and> (\<forall>r. name (qs' ! r) = name (qs ! r)))"

definition link :: "queue list \<Rightarrow> job \<Rightarrow> job" where
  "link qs j = (case find_queue qs j of None \<Rightarrow> j | Some k \<Rightarrow> j\<lparr>queue := QRef k\<rparr>)"

definition linked :: "string \<Rightarrow> queue list \<Rightarrow> job list \<Rightarrow> nat \<Rightarrow> queue" where
  "linked u qs js k =
     (qs ! k)\<lparr>jobs := jobs (qs ! k) @
                 map (\<lambda>j. j\<lparr>queue := QRef k\<rparr>) [j \<leftarrow> js. find_queue qs j = Some k],
              maxusernodes := maxusernodes (qs ! k) -
                 int (length [j \<leftarrow> js. find_queue qs j = Some k \<and> user j = Some u])\<rparr>"

text \<open>
  Two queues, \<open>knl_7210\<close> (10 nodes in the table of defaults) and \<open>testq\<close>, and four
  jobs: two of the user \<open>me\<close> and one of \<open>you\<close> in \<open>knl_7210\<close>, one in a queue that the
  scheduler does not list.
\<close>

definition example_getoutput :: "string \<Rightarrow> py_error + string" where
  "example_getoutput c =
     (if c = ''qstat -Q -l'' then Inr ''Name: knl_7210\<newline>\<newline>Name: testq''
      else if c = ''qstat -f -l''
      then Inr (''JobID: 1\<newline>Queue: knl_7210\<newline>User: me\<newline>\<newline>'' @
                ''JobID: 2\<newline>Queue: knl_7210\<newline>User: me\<newline>\<newline>'' @
                ''JobID: 3\<newline>Queue: knl_7210\<newline>User: you\<newline>\<newline>'' @
                ''JobID: 4\<newline>Queue: other\<newline>User: me'')
      else Inl CalledProcessError)"

definition example_queues :: "queue list" where
  "example_queues =
     (case and_then (example_getoutput ''qstat -Q -l'') parse_queues of
        Inr qs \<Rightarrow> qs | Inl _ \<Rightarrow> [])"

definition example_eval :: "string \<Rightarrow> py_error + attrs_value" where
  \<comment> \<open>no record of the example has an \<open>attrs\<close> field, so \<open>eval\<close> is never called\<close>
  "example_eval t = Inr (AttrsObject t)"

definition example_jobs :: "job list" where
  "example_jobs =
     (case and_then (example_getoutput ''qstat -f -l'') (parse_jobs example_eval) of
        Inr js \<Rightarrow> js | Inl _ \<Rightarrow> [])"

definition knl :: queue where
  \<comment> \<open>the queue \<open>knl_7210\<close> once its three jobs are linked to it\<close>
  "knl = fst (connect ''me'' example_queues example_jobs) ! 0"

definition example_linked :: "queue list" where
  \<comment> \<open>the queues of the example as \<open>get_queues\<close> returns them\<close>
  "example_linked = fst (connect ''me'' example_queues example_jobs)"

definition example_adjusted :: "queue list" where
  \<comment> \<open>and as the loop of \<open>UserPolicy.get_queues\<close> leaves them, with the fraction 0.5
      and the ceiling of two hours\<close>
  "example_adjusted =
     (case sequence (map (policy_queue ''me'' (Finite (1 / 2)) (2 * 3600 * 1000000))
             example_linked) of
        Inr qs \<Rightarrow> qs | Inl _ \<Rightarrow> [])"

definition saturday_noon :: datetime where
  "saturday_noon = \<lparr>weekday = 5, hour = 12, minute = 0, second = 0\<rparr>"

definition testq :: queue where
  \<comment> \<open>the queue built from the record \<open>Name: testq\<close>\<close>
  "testq =
     \<lparr>jobs = [], name = ''testq'', users = [], groups = [], mintime = 600000000,
      maxtime = 3600000000, maxrunning = 0, maxqueued = 0, maxusernodes = 0,
      maxnodehours = 0, totalnodes = 0, state = ''unknown''\<rparr>"

section \<open>Decimal numerals\<close>

lemma digit_facts:
  "is_digit c \<Longrightarrow> \<not> is_space c"
  "is_digit c \<Longrightarrow> \<not> is_host_alpha c"
  "is_digit c \<Longrightarrow> c \<noteq> CHR ''-''"
  "is_digit c \<Longrightarrow> c \<noteq> CHR ''+''"
  "is_digit c \<Longrightarrow> c \<noteq> CHR ''_''"
  by (auto simp: is_digit_def is_space_def is_host_alpha_def is_alpha_def code_def)

lemma str_nat_digits: "list_all is_digit (str_nat n)"
proof (induction n rule: str_nat.induct)
  case (1 n)
  show ?case
  proof (cases "n < 10")
    case True
    then show ?thesis by (subst str_nat.simps) (simp add: is_digit_def code_def)
  next
    case False
    have "n mod 10 < 10" by simp
    then have "is_digit (char_of (48 + n mod 10))"
      by (simp add: is_digit_def code_def)
    with False 1 show ?thesis by (subst str_nat.simps) simp
  qed
qed

lemma str_nat_nonempty: "str_nat n \<noteq> []"
  by (subst str_nat.simps) simp

lemma dec_value_snoc: "dec_value (ds @ [c]) = 10 * dec_value ds + digit_val c"
  by (simp add: dec_value_def)

lemma dec_value_str_nat: "dec_value (str_nat n) = n"
proof (induction n rule: str_nat.induct)
  case (1 n)
  show ?case
  proof (cases "n < 10")
    case True
    then show ?thesis
      by (subst str_nat.simps) (simp add: dec_value_def digit_val_def code_def)
  next
    case False
    have "n mod 10 < 10" by simp
    then have "digit_val (char_of (48 + n mod 10)) = n mod 10"
      by (simp add: digit_val_def code_def)
    with False 1 show ?thesis
      by (subst str_nat.simps) (simp add: dec_value_snoc)
  qed
qed

lemma split_char_none: "sep \<notin> set s \<Longrightarrow> split_char sep s = [s]"
  by (induction s) auto

lemma strip_digits:
  assumes "ds \<noteq> []" "list_all is_digit ds"
  shows "strip ds = ds"
proof -
  from assms have "\<not> is_space (hd ds)"
    by (cases ds) (auto simp: digit_facts)
  then have a: "dropWhile is_space ds = ds"
    by (simp add: dropWhile_eq_self_iff)
  from assms have "is_digit (last ds)"
    by (simp add: list_all_iff)
  then have "\<not> is_space (hd (rev ds))"
    using assms(1) by (simp add: hd_rev digit_facts)
  then have "dropWhile is_space (rev ds) = rev ds"
    by (simp add: dropWhile_eq_self_iff)
  with a show ?thesis by (simp add: strip_def)
qed

lemma py_int_digits:
  assumes "ds \<noteq> []" "list_all is_digit ds"
  shows "py_int ds = Inr (int (dec_value ds))"
proof -
  obtain c r where ds: "ds = c # r" using assms(1) by (cases ds) auto
  with assms(2) have c: "is_digit c" by simp
  have "CHR ''_'' \<notin> set ds"
  proof
    assume "CHR ''_'' \<in> set ds"
    with assms(2) have "is_digit CHR ''_''" by (simp add: list_all_iff)
    then show False by (simp add: is_digit_def code_def)
  qed
  then have sp: "split_char CHR ''_'' ds = [ds]" by (rule split_char_none)
  show ?thesis
    unfolding py_int_def strip_digits [OF assms]
    using c assms sp by (simp add: ds digit_facts Let_def)
qed

lemma py_int_str_nat: "py_int (str_nat n) = Inr (int n)"
  by (simp add: py_int_digits str_nat_nonempty str_nat_digits dec_value_str_nat)

lemma takeWhile_digits_then:
  "list_all is_digit ds \<Longrightarrow> \<not> is_digit c \<Longrightarrow> takeWhile is_digit (ds @ c # r) = ds"
  by (induction ds) auto

lemma dropWhile_digits_then:
  "list_all is_digit ds \<Longrightarrow> \<not> is_digit c \<Longrightarrow> dropWhile is_digit (ds @ c # r) = c # r"
  by (induction ds) auto

lemma upto_nat: "[int a..int b] = map int [a..<Suc b]"
proof (induction b)
  case 0
  show ?case by (cases "a = 0") (simp_all add: upto.simps)
next
  case (Suc b)
  show ?case
  proof (cases "a \<le> Suc b")
    case True
    then have "[int a..int (Suc b)] = [int a..int b] @ [int (Suc b)]"
      by (simp add: upto_rec2)
    with Suc True show ?thesis by simp
  next
    case False
    then show ?thesis by (simp add: upto.simps)
  qed
qed

section \<open>Rounding to a float\<close>

text \<open>
  \<open>floor_log2\<close> is the exponent of a positive rational, and \<open>round_double\<close> gives a multiple
  of the unit of that exponent which is at most half a unit away from its argument.
\<close>

lemma bit_length_bounds:
  "0 < n \<Longrightarrow> 0 < bit_length n \<and> 2 ^ nat (bit_length n - 1) \<le> n \<and> n < 2 ^ nat (bit_length n)"
proof (induction n rule: bit_length.induct)
  case (1 n)
  show ?case
  proof (cases "n div 2 = 0")
    case True
    with "1.prems" have "n = 1" by presburger
    then show ?thesis by (simp add: bit_length.simps)
  next
    case False
    with "1.prems" have pos: "0 < n div 2" by presburger
    define k where "k = bit_length (n div 2)"
    from "1.IH" "1.prems" pos have ih: "0 < k" "2 ^ nat (k - 1) \<le> n div 2" "n div 2 < 2 ^ nat k"
      by (simp_all add: k_def)
    have bl: "bit_length n = 1 + k"
      using "1.prems" by (subst bit_length.simps) (simp add: k_def)
    from ih(1) have e1: "nat (1 + k - 1) = Suc (nat (k - 1))" and e2: "nat (1 + k) = Suc (nat k)"
      by simp_all
    have "2 * (n div 2) \<le> n" "n < 2 * (n div 2) + 2" by presburger+
    with ih show ?thesis
      unfolding bl e1 e2 by simp
  qed
qed

lemma pow2_pos: "0 < pow2 k"
  by (simp add: pow2_def)

lemma pow2_nat: "0 \<le> k \<Longrightarrow> pow2 k = 2 ^ nat k"
  by (simp add: pow2_def)

lemma pow2_add: "pow2 (a + b) = pow2 a * pow2 b"
proof -
  have "pow2 k = 2 powi k" for k
    by (simp add: pow2_def power_int_def field_simps)
  then show ?thesis by (simp add: power_int_add)
qed

lemma pow2_diff: "pow2 (a - b) = pow2 a / pow2 b"
proof -
  have "pow2 a = pow2 (a - b) * pow2 b" using pow2_add [of "a - b" b] by simp
  then show ?thesis using pow2_pos [of b] by (simp add: field_simps)
qed

lemma pow2_Suc: "pow2 (k + 1) = 2 * pow2 k"
  using pow2_add [of k 1] by (simp add: pow2_def)

lemma floor_log2_bounds:
  assumes "0 < x"
  shows "pow2 (floor_log2 x) \<le> x \<and> x < pow2 (floor_log2 x + 1)"
proof -
  obtain p q where pq: "quotient_of x = (p, q)" by (cases "quotient_of x")
  then have q: "0 < q" and x: "x = of_int p / of_int q"
    by (simp_all add: quotient_of_denom_pos quotient_of_div)
  with assms have p: "0 < p" by (simp add: zero_less_divide_iff)
  define a where "a = bit_length p"
  define b where "b = bit_length q"
  from bit_length_bounds [OF p] have pa: "0 < a" "2 ^ nat (a - 1) \<le> p" "p < 2 ^ nat a"
    by (simp_all add: a_def)
  from bit_length_bounds [OF q] have qb: "0 < b" "2 ^ nat (b - 1) \<le> q" "q < 2 ^ nat b"
    by (simp_all add: b_def)
  have P: "pow2 (a - 1) \<le> of_int p" "(of_int p :: rat) < pow2 a"
  proof -
    from pa(1) have "pow2 (a - 1) = of_int (2 ^ nat (a - 1))" "pow2 a = of_int (2 ^ nat a)"
      by (simp_all add: pow2_nat)
    with pa(2,3) show "pow2 (a - 1) \<le> of_int p" "(of_int p :: rat) < pow2 a"
      by (simp_all only: of_int_le_iff of_int_less_iff)
  qed
  have Q: "pow2 (b - 1) \<le> of_int q" "(of_int q :: rat) < pow2 b"
  proof -
    from qb(1) have "pow2 (b - 1) = of_int (2 ^ nat (b - 1))" "pow2 b = of_int (2 ^ nat b)"
      by (simp_all add: pow2_nat)
    with qb(2,3) show "pow2 (b - 1) \<le> of_int q" "(of_int q :: rat) < pow2 b"
      by (simp_all only: of_int_le_iff of_int_less_iff)
  qed
  have qpos: "(0::rat) < of_int q" using q by simp
  have ppos: "(0::rat) < of_int p" using p by simp
  have up: "x < pow2 (a - b + 1)"
  proof -
    have "x < pow2 a / of_int q" unfolding x using P(2) qpos by (simp add: divide_strict_right_mono)
    also have "\<dots> \<le> pow2 a / pow2 (b - 1)"
      using Q(1) pow2_pos [of "b - 1"] pow2_pos [of a] by (simp add: frac_le)
    also have "\<dots> = pow2 (a - (b - 1))" by (simp add: pow2_diff)
    finally show ?thesis by (simp add: algebra_simps)
  qed
  have lo: "pow2 (a - b - 1) < x"
  proof -
    have "pow2 (a - b - 1) = pow2 (a - 1) / pow2 b"
      using pow2_diff [of "a - 1" b] by (simp add: algebra_simps)
    also have "\<dots> \<le> of_int p / pow2 b"
      using P(1) pow2_pos [of b] by (simp add: divide_right_mono)
    also have "\<dots> < of_int p / of_int q"
      using Q(2) qpos ppos by (simp add: frac_less2)
    finally show ?thesis by (simp add: x)
  qed
  have fl: "floor_log2 x = (if pow2 (a - b) \<le> x then a - b else a - b - 1)"
    by (simp add: floor_log2_def pq a_def b_def Let_def)
  show ?thesis
  proof (cases "pow2 (a - b) \<le> x")
    case True
    with up fl show ?thesis by simp
  next
    case False
    with fl have e: "floor_log2 x = a - b - 1" by simp
    then have e1: "floor_log2 x + 1 = a - b" by simp
    from False have "x < pow2 (a - b)" by simp
    with lo show ?thesis unfolding e1 unfolding e by simp
  qed
qed


lemma round_half_even_int: "round_half_even (of_int n) = n"
  by (simp add: round_half_even_def)

lemma round_half_even_error: "\<bar>of_int (round_half_even x) - x\<bar> \<le> 1 / 2"
proof -
  define n where "n = \<lfloor>x\<rfloor>"
  have f: "of_int n \<le> x" "x < of_int n + 1"
    unfolding n_def by linarith+
  show ?thesis
    unfolding round_half_even_def Let_def n_def [symmetric]
    using f by (auto simp: abs_le_iff)
qed

lemma round_double_nearest:
  assumes "round_double x = Finite v" and "x \<noteq> 0"
  shows "\<exists>n. v = of_int n * pow2 (max (floor_log2 \<bar>x\<bar>) (- 1022) - 52) \<and>
             \<bar>v - x\<bar> \<le> pow2 (max (floor_log2 \<bar>x\<bar>) (- 1022) - 53)"
proof -
  define q where "q = pow2 (max (floor_log2 \<bar>x\<bar>) (- 1022) - 52)"
  define n where "n = round_half_even (x / q)"
  have qpos: "0 < q" by (simp add: q_def pow2_pos)
  from assms have v: "v = of_int n * q"
    by (simp add: round_double_def Let_def q_def n_def split: if_splits)
  have "\<bar>v - x\<bar> = q * \<bar>of_int n - x / q\<bar>"
  proof -
    have "v - x = q * (of_int n - x / q)" using qpos by (simp add: v field_simps)
    then show ?thesis using qpos by (simp add: abs_mult)
  qed
  also have "\<dots> \<le> q * (1 / 2)"
    using round_half_even_error [of "x / q"] qpos unfolding n_def
    by (intro mult_left_mono) simp_all
  also have "\<dots> = pow2 (max (floor_log2 \<bar>x\<bar>) (- 1022) - 53)"
  proof -
    have "pow2 (max (floor_log2 \<bar>x\<bar>) (- 1022) - 53 + 1) =
            2 * pow2 (max (floor_log2 \<bar>x\<bar>) (- 1022) - 53)"
      by (rule pow2_Suc)
    then show ?thesis by (simp add: q_def)
  qed
  finally show ?thesis using v unfolding q_def by blast
qed

section \<open>Equality of jobs\<close>

text \<open>
  C1. Two jobs should be equal exactly when their identifiers are, and a job should equal
  an integer or a numeric string that is its identifier. \<open>Job.__eq__\<close> tests
  \<open>isinstance(other, Job)\<close> first, and \<open>Job\<close> is bound neither in the method nor at module
  level (\<open>Queue.__eq__\<close> writes \<open>Cobalt.Queue\<close>): every comparison raises \<open>NameError\<close>,
  whatever the job and whatever it is compared with.
\<close>

theorem Job_eq_raises_NameError: "Job_eq a other = Inl (NameError ''Job'')"
  by (simp add: Job_eq_def lookup_name_def module_globals_def builtins_def and_then_def)

section \<open>Expansion of a location range\<close>

lemma bracket_groups_digits:
  assumes "a \<noteq> []" "list_all is_digit a" "b \<noteq> []" "list_all is_digit b"
  shows "bracket_groups (CHR ''['' # a @ CHR ''-'' # b @ CHR '']'' # r) = Some (a, b)"
proof -
  have m: "\<not> is_digit CHR ''-''" and k: "\<not> is_digit CHR '']''"
    by (simp_all add: is_digit_def code_def)
  show ?thesis
    unfolding bracket_groups_def
    using assms
    by (simp add: takeWhile_digits_then [OF _ m] dropWhile_digits_then [OF _ m]
        takeWhile_digits_then [OF _ k] dropWhile_digits_then [OF _ k])
qed

lemma takeWhile_alpha_then:
  "list_all is_host_alpha p \<Longrightarrow> \<not> is_host_alpha c \<Longrightarrow>
   takeWhile is_host_alpha (p @ c # r) = p"
  by (induction p) auto

lemma dropWhile_alpha_then:
  "list_all is_host_alpha p \<Longrightarrow> \<not> is_host_alpha c \<Longrightarrow>
   dropWhile is_host_alpha (p @ c # r) = c # r"
  by (induction p) auto

lemma fragment_match_bracket:
  assumes "p \<noteq> []" "list_all is_host_alpha p"
    and "a \<noteq> []" "list_all is_digit a" "b \<noteq> []" "list_all is_digit b"
  shows "fragment_match (p @ CHR ''['' # a @ CHR ''-'' # b @ [CHR '']'']) =
           Some (p, None, Some (a, b))"
proof -
  have o: "\<not> is_host_alpha CHR ''[''" "\<not> is_digit CHR ''[''"
    by (simp_all add: is_host_alpha_def is_alpha_def is_digit_def code_def)
  show ?thesis
    unfolding fragment_match_def
    using assms o
    by (simp add: takeWhile_alpha_then dropWhile_alpha_then bracket_groups_digits)
qed

text \<open>
  C2, as stated: every fragment \<open>prefix[start-end]\<close> is expanded into the host names
  \<open>prefix\<close> followed by \<open>start\<close>, ..., \<open>end\<close>. It fails for a prefix with a digit in it:
  the group \<open>n\<close> of the pattern then matches, and the loop keeps such a fragment as it is.
\<close>

theorem expand_fragment_digit_prefix_kept:
  "expand_fragment (''node1a'' @ ''['' @ str_nat 3 @ ''-'' @ str_nat 5 @ '']'') =
     Inr [''node1a[3-5]''] \<and>
   expand_fragment (''node1a'' @ ''['' @ str_nat 3 @ ''-'' @ str_nat 5 @ '']'') \<noteq>
     Inr (map (\<lambda>i. ''node1a'' @ str_nat i) [3..<Suc 5])"
  by code_simp

text \<open>
  C2, amended: for a non-empty prefix of letters, \<open>_\<close>, \<open>-\<close> and \<open>.\<close> only, and \<open>start\<close>,
  \<open>end\<close> natural numbers in decimal, the fragment \<open>prefix[start-end]\<close> is expanded into
  the names \<open>prefix\<close> followed by \<open>i\<close> for \<open>i = start, ..., end\<close> in ascending order:
  \<open>end - start + 1\<close> names when \<open>start \<le> end\<close>.
\<close>

theorem expand_fragment_range:
  assumes "prefix \<noteq> []" and "list_all is_host_alpha prefix"
  shows "expand_fragment (prefix @ ''['' @ str_nat start @ ''-'' @ str_nat end @ '']'') =
           Inr (map (\<lambda>i. prefix @ str_nat i) [start..<Suc end]) \<and>
         (start \<le> end \<longrightarrow>
            length (map (\<lambda>i. prefix @ str_nat i) [start..<Suc end]) = end - start + 1)"
proof -
  have "fragment_match
          (prefix @ CHR ''['' # str_nat start @ CHR ''-'' # str_nat end @ [CHR '']'']) =
        Some (prefix, None, Some (str_nat start, str_nat end))"
    using assms by (intro fragment_match_bracket str_nat_nonempty str_nat_digits)
  then show ?thesis
    by (simp add: expand_fragment_def py_int_str_nat and_then_def upto_nat str_int_def
        comp_def Suc_diff_le)
qed

theorem expand_fragment_range_witness:
  "''nodeA'' \<noteq> [] \<and> list_all is_host_alpha ''nodeA'' \<and> (3::nat) \<le> 5 \<and>
   expand_fragment ''nodeA[3-5]'' = Inr [''nodeA3'', ''nodeA4'', ''nodeA5'']"
proof -
  have d: "str_nat 3 = ''3''" "str_nat 4 = ''4''" "str_nat 5 = ''5''"
    by code_simp+
  have p: "list_all is_host_alpha ''nodeA''"
    by (simp add: is_host_alpha_def is_alpha_def code_def)
  have "[3..<Suc 5] = [3, 4, 5]"
    by (simp add: upt_rec)
  with expand_fragment_range [of "''nodeA''" 3 5] p d show ?thesis
    by simp
qed

lemma from_string_location_range:
  "map_sum id location
     (from_string py_eval ''JobID: 7\<newline>Queue: it\<newline>Location: nodeA[3-5]\<newline>'') =
   Inr [''nodeA3'', ''nodeA4'', ''nodeA5'']"
  by code_simp

section \<open>Construction of a queue\<close>

text \<open>
  C3. A queue record with a \<open>MinTime\<close> field \<open>H:M:S\<close> should give a queue whose \<open>mintime\<close>
  is that duration. The branch reads the undefined name \<open>sedonds\<close> (the \<open>MaxTime\<close> branch
  beside it reads \<open>seconds\<close>), so the construction raises \<open>NameError\<close>.
\<close>

theorem Queue_init_MinTime_raises:
  "Queue_init ''Name: testq\<newline>MinTime: 00:10:00\<newline>'' = Inl (NameError ''sedonds'')"
  by code_simp

text \<open>
  The same holds of every record in which \<open>mintime_re\<close> finds a \<open>MinTime\<close> field: the
  construction raises.
\<close>

lemma local_int_sedonds:
  "local_int [(''hours'', h), (''minutes'', m), (''seconds'', s)] ''sedonds'' =
     Inl (NameError ''sedonds'')"
  by (simp add: local_int_def module_globals_def builtins_def)

lemma and_then_Inl: "and_then (Inl e) f = Inl e"
  by (simp add: and_then_def)

lemma mintime_of_raises: "\<exists>e. mintime_of g = Inl e"
  by (auto simp: mintime_of_def and_then_def local_int_sedonds split: sum.splits list.splits)

lemma Queue_init_MinTime_never_succeeds:
  assumes "re_field ''MinTime'' hms_group s = Some g"
  shows "\<exists>e. Queue_init s = Inl e"
proof (cases "queue_name_field s")
  case None
  then show ?thesis by (simp add: Queue_init_def)
next
  case (Some n)
  obtain e where "mintime_of g = Inl e" using mintime_of_raises by blast
  with Some assms have "Queue_init s = Inl e"
    by (simp add: Queue_init_def Let_def and_then_Inl)
  then show ?thesis by blast
qed

text \<open>
  C9. The record \<open>Name: testq\<close> alone gives the queue named \<open>testq\<close> with no users, no
  groups, \<open>mintime\<close> 10 minutes, \<open>maxtime\<close> 1 hour, \<open>maxrunning\<close>, \<open>maxqueued\<close>,
  \<open>maxusernodes\<close> and \<open>totalnodes\<close> 0 (the name is not in the table of defaults) and
  state \<open>unknown\<close>.
\<close>

theorem Queue_init_name_only:
  "Queue_init ''Name: testq'' =
     Inr \<lparr>jobs = [], name = ''testq'', users = [], groups = [],
           mintime = 10 * 60 * 1000000, maxtime = 3600 * 1000000, maxrunning = 0,
           maxqueued = 0, maxusernodes = 0, maxnodehours = 0, totalnodes = 0,
           state = ''unknown''\<rparr> \<and>
   map_of defaults ''testq'' = None"
  by code_simp

section \<open>Parsing of a job\<close>

text \<open>
  C8. A record with only \<open>JobID\<close> and \<open>Queue\<close> should give a job with the defaults for all
  other fields: empty lists for \<open>users\<close> and \<open>dependencies\<close>, empty mappings for \<open>envs\<close>
  and \<open>attrs\<close>, state \<open>unknown\<close>. \<open>from_string\<close> assigns these defaults and then overwrites
  each with the result of \<open>match\<close>, which is \<open>None\<close> for an absent field; identifier, queue
  name and the fields whose default is \<open>None\<close> or that keep their own variable
  (\<open>location\<close>) are as claimed.
\<close>

theorem from_string_defaults_overwritten:
  "from_string py_eval ''JobID: 42\<newline>Queue: default\<newline>'' =
     Inr \<lparr>jobid = 42, queue = QName ''default'', user = None, job_name = None,
           job_users = None, walltime = None, runtime = None, start_time = None,
           queued_time = None, remaining_time = None, nodecount = None, proccount = None,
           location = [], job_state = None, user_hold = None, envs = None, attrs = None,
           kwargs = []\<rparr>"
  by code_simp

text \<open>
  For every record that \<open>from_string\<close> accepts, \<open>users\<close>, \<open>state\<close>, \<open>user\<close> and \<open>name\<close> are
  what \<open>match\<close> gave, \<open>None\<close> when the field is absent, and so are \<open>envs\<close> and \<open>attrs\<close>.
\<close>

lemma and_thenE:
  assumes "and_then m f = Inr y"
  obtains x where "m = Inr x" and "f x = Inr y"
  using assms by (cases m) (simp_all add: and_then_def)

lemma from_string_fields:
  assumes "from_string py_eval s = Inr j"
  shows "job_users j = map_option (split_char CHR '':'')
                         (re_field ''user_list'' (sep_group is_word CHR '':'') s) \<and>
         job_state j = re_field ''State'' (plus_group is_word) s \<and>
         opt_then (re_field ''attrs'' attrs_group s) py_eval = Inr (attrs j) \<and>
         user j = re_field ''User'' (plus_group is_word) s \<and>
         job_name j = name_field s \<and>
         map_option QName (re_field ''Queue'' (plus_group is_host) s) = Some (queue j) \<and>
         opt_then (re_field ''Envs'' envs_group s) envs_of = Inr (envs j)"
  using assms unfolding from_string_def Let_def
  apply (cases "re_field ''JobID'' (plus_group is_digit) s"; simp)
  apply (erule and_thenE)
  apply (cases "re_field ''Queue'' (plus_group is_host) s"; simp)
  apply (erule and_thenE)+
  apply (auto simp: Job_init_def)
  done

section \<open>The regime of \<open>UserPolicy.get_queues\<close>\<close>

text \<open>
  C4, as stated: the off-hours figures \<open>max_occupancy\<close> and \<open>maxtime\<close> are applied exactly
  when the weekday index is below 5 or the time of day is outside the office window. On a
  Monday at noon, with the policy of \<open>__main__.py\<close>, the weekday index is 0 and the
  figures applied are the office-hours ones.
\<close>

theorem regime_monday_noon_office:
  "regime nice_user 0 (12 * 3600 * 1000000) =
     (office_max_occupancy nice_user, office_maxtime nice_user) \<and>
   regime nice_user 0 (12 * 3600 * 1000000) \<noteq>
     (max_occupancy nice_user, policy_maxtime nice_user)"
  by (simp add: regime_def nice_user_def)

text \<open>
  C4, amended: at a time of day within the office window (from \<open>office_day_start\<close> to
  \<open>office_day_stop\<close>, both included), \<open>get_queues\<close> applies the office-hours figures
  \<open>office_max_occupancy\<close> and \<open>office_maxtime\<close> when the weekday index is below 5, and the
  off-hours figures \<open>max_occupancy\<close> and \<open>maxtime\<close> otherwise.
\<close>

theorem regime_within_office_window:
  assumes "office_day_start p \<le> dt" and "dt \<le> office_day_stop p"
  shows "regime p wd dt =
           (if wd < 5 then (office_max_occupancy p, office_maxtime p)
            else (max_occupancy p, policy_maxtime p))"
  using assms by (simp add: regime_def)

theorem regime_within_office_window_witness:
  "office_day_start nice_user \<le> 12 * 3600 * 1000000 \<and>
   12 * 3600 * 1000000 \<le> office_day_stop nice_user \<and>
   regime nice_user 5 (12 * 3600 * 1000000) = (Finite (1 / 2), 2 * 3600 * 1000000) \<and>
   regime nice_user 0 (12 * 3600 * 1000000) = (Finite (1 / 4), 30 * 60 * 1000000)"
  using regime_within_office_window [of nice_user "12 * 3600 * 1000000" 5]
    regime_within_office_window [of nice_user "12 * 3600 * 1000000" 0]
  by (simp add: nice_user_def)

text \<open>
  Outside the office window the figures applied are the office-hours ones as well, on
  every day of the week.
\<close>

lemma regime_outside_office_window:
  "dt < office_day_start p \<or> office_day_stop p < dt \<Longrightarrow>
   regime p wd dt = (office_max_occupancy p, office_maxtime p)"
  by (auto simp: regime_def)

section \<open>Admission checks of \<open>Queue.submit\<close>\<close>

lemma submit_refusal:
  assumes "num_used local_user self + nodecount' > maxusernodes self \<or>
           no_oversuscribe \<and> int (length (jobs self)) + nodecount' > totalnodes self"
  shows "\<exists>reason. submit local_user filename qsub now self cmd nodecount' proccount' time jobname cwd
             stderr stdout output_prefix users' project attrs' dependencies geometry env hold
             input_file email umask no_oversuscribe = (Inl (StopIteration reason), self, [])"
  using assms by (auto simp add: submit_def num_used_def Let_def)

lemma submit_admitted:
  assumes "\<not> num_used local_user self + nodecount' > maxusernodes self"
    and "\<not> (no_oversuscribe \<and> int (length (jobs self)) + nodecount' > totalnodes self)"
    and "run_writes (script cmd proccount' cwd stderr stdout output_prefix users' project
           attrs' dependencies geometry env hold input_file email umask) = (writes, err)"
  shows "submit local_user filename qsub now self cmd nodecount' proccount' time jobname cwd
             stderr stdout output_prefix users' project attrs' dependencies geometry env hold
             input_file email umask no_oversuscribe = 
   (case err of
      Some e \<Rightarrow> (Inl e, self, Mkstemp filename # writes)
    | None \<Rightarrow> 
        (let time' = (case time of Some t \<Rightarrow> t | None \<Rightarrow> maxtime self);
             command = ''qsub --queue '' @ name self @ '' -n '' @ str_int nodecount' @
                        '' -t '' @ str_timedelta time' @
                        (case jobname of None \<Rightarrow> [] | Some n \<Rightarrow> '' --jobname '' @ n) @
                        '' '' @ filename;
             effects = Mkstemp filename # writes @ [Chmod filename, Subprocess command] in
         case qsub command of Inl e \<Rightarrow> (Inl e, self, effects)
         | Inr jobid' \<Rightarrow> (Inr (Job_init jobid' (QName (name self)) (Some local_user) jobname
                       (Some users') (Some time') (Some 0) None (Some 0) (Some time')
                       (Some nodecount') (Some proccount') [] (Some ''queued'') (Some hold)
                       (Some env) (Some (AttrsDict attrs')) dependencies
                       [(''project'', opt_extra project), (''submit_time'', XDatetime now),
                        (''notify'', opt_extra email)]),
                self\<lparr>maxusernodes := maxusernodes self - 1\<rparr>, effects)))"
proof -
  have a: "(maxusernodes self < int (length (filter (\<lambda>j. user j = Some local_user) (jobs self))) + nodecount') = False"
    using assms(1) by (simp add: num_used_def)
  have b: "(no_oversuscribe \<and> totalnodes self < int (length (jobs self)) + nodecount') = False"
    using assms(2) by simp
  show ?thesis
    unfolding submit_def Let_def by (simp only: a b if_False assms(3) prod.case)
qed

lemma Job_init_jobid: "jobid (Job_init i q a1 a2 a3 a4 a5 a6 a7 a8 a9 a10 a11 a12 a13 a14 a15 a16 a17) = i"
  by (simp add: Job_init_def)

text \<open>
  C6. When the jobs of the local user in the queue plus \<open>nodecount\<close> exceed
  \<open>maxusernodes\<close>, \<open>submit\<close> raises \<open>StopIteration\<close> with the reason
  \<open>Submition on <name> cancelled due to user policy.\<close>, the queue is as before and nothing
  has happened outside: no temporary file, no write, no subprocess. Likewise, with
  \<open>no_oversuscribe\<close> set, when all the jobs of the queue plus \<open>nodecount\<close> exceed
  \<open>totalnodes\<close>: \<open>StopIteration\<close> with a non-empty reason and no effect.
\<close>

theorem submit_refused_before_effects:
  "(num_used local_user self + nodecount' > maxusernodes self \<longrightarrow>
     submit local_user filename qsub now self cmd nodecount' proccount' time jobname cwd stderr
       stdout output_prefix users' project attrs' dependencies geometry env hold input_file
       email umask no_oversuscribe =
     (Inl (StopIteration (''Submition on '' @ name self @ '' cancelled due to user policy.'')),
      self, [])) \<and>
   (no_oversuscribe \<and> int (length (jobs self)) + nodecount' > totalnodes self \<longrightarrow>
     (\<exists>reason.
        submit local_user filename qsub now self cmd nodecount' proccount' time jobname cwd
          stderr stdout output_prefix users' project attrs' dependencies geometry env hold
          input_file email umask no_oversuscribe =
        (Inl (StopIteration reason), self, []) \<and> reason \<noteq> []))"
  by (simp add: submit_def num_used_def Let_def)

theorem submit_refused_before_effects_witness:
  "num_used ''me'' testq + 1 > maxusernodes testq \<and>
   int (length (jobs testq)) + 1 > totalnodes testq \<and>
   submit ''me'' ''/tmp/tmpab12.sh'' (\<lambda>c. Inr 1) 0 testq ''hostname'' 1 1 None None None None None None
     [''me''] None [] [] [] [] False None None None True =
   (Inl (StopIteration ''Submition on testq cancelled due to user policy.''), testq, [])"
  using submit_refused_before_effects [where local_user = "''me''" and self = testq and nodecount' = 1
      and filename = "''/tmp/tmpab12.sh''" and qsub = "\<lambda>c. Inr 1" and now = 0
      and cmd = "''hostname''" and proccount' = 1 and time = None and jobname = None
      and cwd = None and stderr = None and stdout = None and output_prefix = None
      and users' = "[''me'']" and project = None and attrs' = "[]" and dependencies = "[]"
      and geometry = "[]" and env = "[]" and hold = False and input_file = None
      and email = None and umask = None and no_oversuscribe = True]
  by (simp add: testq_def num_used_def)

text \<open>
  C10. Whenever \<open>submit\<close> raises, the queue is left as it was; the two admission refusals
  raise \<open>StopIteration\<close>, so they leave \<open>maxusernodes\<close> and \<open>jobs\<close> untouched. Only when
  \<open>submit\<close> returns a job has \<open>maxusernodes\<close> gone down by one (\<open>jobs\<close> still being the
  same), and then the last effect is the \<open>qsub\<close> subprocess that returned the job's
  identifier.
\<close>

theorem submit_error_leaves_queue:
  assumes "submit local_user filename qsub now self cmd nodecount' proccount' time jobname cwd
             stderr stdout output_prefix users' project attrs' dependencies geometry env hold
             input_file email umask no_oversuscribe = (r, q', effs)"
  shows "(\<forall>e. r = Inl e \<longrightarrow> q' = self) \<and>
         (num_used local_user self + nodecount' > maxusernodes self \<or>
          no_oversuscribe \<and> int (length (jobs self)) + nodecount' > totalnodes self \<longrightarrow>
            (\<exists>reason. r = Inl (StopIteration reason)) \<and> q' = self) \<and>
         (\<forall>j. r = Inr j \<longrightarrow>
            q' = self\<lparr>maxusernodes := maxusernodes self - 1\<rparr> \<and> jobs q' = jobs self \<and>
            (\<exists>command. qsub command = Inr (jobid j) \<and> effs \<noteq> [] \<and> last effs = Subprocess command))"
proof (cases "num_used local_user self + nodecount' > maxusernodes self \<or>
          no_oversuscribe \<and> int (length (jobs self)) + nodecount' > totalnodes self")
  case True
  from submit_refusal [OF True, of filename qsub now cmd proccount' time jobname cwd
             stderr stdout output_prefix users' project attrs' dependencies geometry env hold
             input_file email umask]
  obtain reason where "(r, q', effs) = (Inl (StopIteration reason), self, [])"
    unfolding assms by blast
  then have "r = Inl (StopIteration reason)" "q' = self" by simp_all
  with True show ?thesis by simp
next
  case False
  then have a: "\<not> num_used local_user self + nodecount' > maxusernodes self"
    and b: "\<not> (no_oversuscribe \<and> int (length (jobs self)) + nodecount' > totalnodes self)"
    by simp_all
  obtain writes err where rw: "run_writes (script cmd proccount' cwd stderr stdout output_prefix users' project
           attrs' dependencies geometry env hold input_file email umask) = (writes, err)"
    by (cases "run_writes (script cmd proccount' cwd stderr stdout output_prefix users' project
           attrs' dependencies geometry env hold input_file email umask)")
  note eq = submit_admitted [OF a b rw, of filename qsub now time jobname, unfolded assms]
  show ?thesis
  proof (cases err)
    case (Some e)
    with eq have "r = Inl e" "q' = self" by simp_all
    with a b show ?thesis by auto
  next
    case None
    define command where "command = ''qsub --queue '' @ name self @ '' -n '' @ str_int nodecount' @
                        '' -t '' @ str_timedelta (case time of Some t \<Rightarrow> t | None \<Rightarrow> maxtime self) @
                        (case jobname of None \<Rightarrow> [] | Some n \<Rightarrow> '' --jobname '' @ n) @
                        '' '' @ filename"
    show ?thesis
    proof (cases "qsub command")
      case (Inl e)
      with eq None have "r = Inl e" "q' = self" by (simp_all add: command_def Let_def)
      with a b show ?thesis by auto
    next
      case (Inr jobid')
      with eq None have "\<exists>j. r = Inr j \<and> jobid j = jobid'" "q' = self\<lparr>maxusernodes := maxusernodes self - 1\<rparr>"
        "effs \<noteq> []" "last effs = Subprocess command"
        by (simp_all add: command_def Let_def Job_init_jobid)
      with a b Inr show ?thesis by auto
    qed
  qed
qed


theorem submit_error_leaves_queue_witness:
  "submit ''me'' ''/tmp/tmpab12.sh'' (\<lambda>c. Inr 1) 0 testq ''hostname'' 1 1 None None None None None None
     [''me''] None [] [] [] [] False None None None True =
   (Inl (StopIteration ''Submition on testq cancelled due to user policy.''), testq, []) \<and>
   num_used ''me'' testq + 1 > maxusernodes testq"
proof -
  have s: "submit ''me'' ''/tmp/tmpab12.sh'' (\<lambda>c. Inr 1) 0 testq ''hostname'' 1 1 None None None None None None
     [''me''] None [] [] [] [] False None None None True =
   (Inl (StopIteration ''Submition on testq cancelled due to user policy.''), testq, [])"
    by (simp add: submit_def testq_def Let_def)
  from submit_error_leaves_queue [OF s] show ?thesis
    using s by (simp add: testq_def num_used_def)
qed


section \<open>Linking jobs and queues\<close>

lemma find_index_Some: "find_index P xs = Some k \<Longrightarrow> k < length xs \<and> P (xs ! k)"
  by (induction xs arbitrary: k) (auto split: if_splits)

lemma find_index_names:
  "map name qs' = map name qs \<Longrightarrow>
   find_index (\<lambda>q. name q = n) qs' = find_index (\<lambda>q. name q = n) qs"
  by (induction qs arbitrary: qs') auto

lemma same_names_find_queue:
  assumes "same_names qs' qs"
  shows "find_queue qs' j = find_queue qs j"
proof -
  from assms have names: "map name qs' = map name qs"
    by (auto simp: same_names_def list_eq_iff_nth_eq)
  from assms have ref: "ref_name qs' (queue j) = ref_name qs (queue j)"
    by (cases "queue j") (auto simp: same_names_def ref_name_def)
  show ?thesis
    unfolding find_queue_def ref by (rule find_index_names [OF names])
qed

lemma find_queue_less: "find_queue qs j = Some k \<Longrightarrow> k < length qs"
  by (auto simp: find_queue_def dest: find_index_Some)

lemma connect_job_snd: "snd (connect_job u qs j) = link qs j"
  by (simp add: connect_job_def link_def Let_def split: option.splits)

lemma connect_job_length: "length (fst (connect_job u qs j)) = length qs"
  by (simp add: connect_job_def Let_def split: option.splits)

lemma connect_job_nth:
  "fst (connect_job u qs j) ! k = linked u qs [j] k"
proof (cases "find_queue qs j")
  case None
  then show ?thesis by (simp add: connect_job_def linked_def)
next
  case (Some k')
  then have "k' < length qs" by (rule find_queue_less)
  with Some show ?thesis
    by (cases "k = k'") (simp_all add: connect_job_def linked_def Let_def)
qed

lemma connect_job_same_names: "same_names (fst (connect_job u qs j)) qs"
  by (simp add: same_names_def connect_job_length connect_job_nth linked_def)


lemma linked_step:
  assumes "same_names qs1 qs" and "\<And>k. qs1 ! k = linked u qs [j] k"
  shows "linked u qs1 js k = linked u qs (j # js) k"
proof -
  have fq: "\<And>x. find_queue qs1 x = find_queue qs x"
    using assms(1) by (rule same_names_find_queue)
  show ?thesis
    by (simp add: linked_def fq assms(2))
qed

lemma connect_result:
  "connect u qs js = (qs', js') \<Longrightarrow>
   js' = map (link qs) js \<and> length qs' = length qs \<and> (\<forall>k. qs' ! k = linked u qs js k)"
proof (induction js arbitrary: qs qs' js')
  case Nil
  then show ?case by (simp add: linked_def)
next
  case (Cons j js)
  obtain qs1 j1 where cj: "connect_job u qs j = (qs1, j1)" by (cases "connect_job u qs j")
  obtain qs2 js2 where c: "connect u qs1 js = (qs2, js2)" by (cases "connect u qs1 js")
  from Cons.prems cj c have r: "qs' = qs2" "js' = j1 # js2" by simp_all
  from cj have sn: "same_names qs1 qs" and j1: "j1 = link qs j" and len: "length qs1 = length qs"
    and nth: "\<And>k. qs1 ! k = linked u qs [j] k"
    using connect_job_same_names [of u qs j] connect_job_snd [of u qs j]
      connect_job_length [of u qs j] connect_job_nth [of u qs j]
    by simp_all
  have fq: "\<And>x. find_queue qs1 x = find_queue qs x"
    using sn by (rule same_names_find_queue)
  then have lk: "link qs1 = link qs" by (simp add: link_def fun_eq_iff)
  from Cons.IH [OF c] have ih: "js2 = map (link qs1) js" "length qs2 = length qs1"
    "\<And>k. qs2 ! k = linked u qs1 js k" by simp_all
  have st: "\<And>k. linked u qs1 js k = linked u qs (j # js) k"
    using sn nth by (rule linked_step)
  show ?case
    unfolding r ih(1) lk j1 using ih(2) len ih(3) st by simp
qed

text \<open>
  C7. After \<open>get_queues_jobs\<close> has parsed queues \<open>qs\<close> and jobs \<open>js\<close>, the loop
  \<open>connect\<close> gives, for every job \<open>js ! i\<close> whose queue name is the name of a parsed
  queue, the first such being at position \<open>k\<close>: the job's \<open>queue\<close> is the queue object
  \<open>k\<close>; the queue \<open>k\<close> has got appended to its \<open>jobs\<close>, in order, exactly the jobs that
  name it, each with its \<open>queue\<close> so replaced, this job among them; and its
  \<open>maxusernodes\<close> has gone down by the number of those jobs whose \<open>user\<close> is the local
  user, that is by one for each such job and by nothing for any other.
\<close>

theorem connect_links_jobs:
  assumes "connect u qs js = (qs', js')" and "i < length js"
    and "find_queue qs (js ! i) = Some k"
  shows "js' ! i = (js ! i)\<lparr>queue := QRef k\<rparr> \<and>
         jobs (qs' ! k) = jobs (qs ! k) @
            map (\<lambda>j. j\<lparr>queue := QRef k\<rparr>) [j \<leftarrow> js. find_queue qs j = Some k] \<and>
         js' ! i \<in> set (jobs (qs' ! k)) \<and>
         maxusernodes (qs' ! k) = maxusernodes (qs ! k) -
            int (length [j \<leftarrow> js. find_queue qs j = Some k \<and> user j = Some u])"
proof -
  from connect_result [OF assms(1)]
  have js': "js' = map (link qs) js" and q: "qs' ! k = linked u qs js k" by simp_all
  from js' assms(2,3) have 1: "js' ! i = (js ! i)\<lparr>queue := QRef k\<rparr>"
    by (simp add: link_def)
  have 2: "jobs (qs' ! k) = jobs (qs ! k) @
            map (\<lambda>j. j\<lparr>queue := QRef k\<rparr>) [j \<leftarrow> js. find_queue qs j = Some k]"
    by (simp add: q linked_def)
  from assms(2,3) have "js ! i \<in> set [j \<leftarrow> js. find_queue qs j = Some k]" by simp
  then have 3: "js' ! i \<in> set (jobs (qs' ! k))"
    unfolding 1 2 by (simp add: image_iff) blast
  have 4: "maxusernodes (qs' ! k) = maxusernodes (qs ! k) -
            int (length [j \<leftarrow> js. find_queue qs j = Some k \<and> user j = Some u])"
    by (simp add: q linked_def)
  show ?thesis using 1 2 3 4 by simp
qed


theorem connect_links_jobs_witness:
  "2 < length example_jobs \<and> find_queue example_queues (example_jobs ! 2) = Some 0 \<and>
   snd (connect ''me'' example_queues example_jobs) ! 2 = (example_jobs ! 2)\<lparr>queue := QRef 0\<rparr> \<and>
   snd (connect ''me'' example_queues example_jobs) ! 2 \<in>
     set (jobs (fst (connect ''me'' example_queues example_jobs) ! 0)) \<and>
   maxusernodes (example_queues ! 0) = 10 \<and>
   maxusernodes (fst (connect ''me'' example_queues example_jobs) ! 0) = 8"
proof -
  have len: "2 < length example_jobs" by code_simp
  have fq: "find_queue example_queues (example_jobs ! 2) = Some 0" by code_simp
  have c: "connect ''me'' example_queues example_jobs =
            (fst (connect ''me'' example_queues example_jobs),
             snd (connect ''me'' example_queues example_jobs))" by simp
  have m: "maxusernodes (example_queues ! 0) = 10" by code_simp
  have n: "int (length [j \<leftarrow> example_jobs. find_queue example_queues j = Some 0 \<and> user j = Some ''me'']) = 2"
    by code_simp
  from connect_links_jobs [OF c len fq] len fq m n show ?thesis by simp
qed

section \<open>Capacity left by \<open>UserPolicy.get_queues\<close>\<close>

lemma round_double_zero: "round_double 0 = Finite 0"
  by (simp add: round_double_def)

lemma ceil_product_zero: "ceil_product 0 (Finite r) = Inr 0"
  by (simp add: ceil_product_def float_of_int_def round_double_zero and_then_def py_ceil_def)

lemma ceil_product_ten_half: "ceil_product 10 (Finite (1 / 2)) = Inr 5"
  by code_simp

text \<open>
  The product is the float product: \<open>100 * 0.07\<close> is the float next above 7, and
  \<open>100 * 0.1\<close> is 10, though the float \<open>0.1\<close> is above one tenth.
\<close>

lemma ceil_product_float_rounding:
  "round_double (7 / 100) = Finite (5044031582654956 / 2 ^ 56) \<and>
   ceil_product 100 (round_double (7 / 100)) = Inr 8 \<and>
   round_double (1 / 10) = Finite (3602879701896397 / 2 ^ 55) \<and>
   ceil_product 100 (round_double (1 / 10)) = Inr 10"
  by code_simp

lemma policy_queue_Inr:
  assumes "ceil_product (totalnodes q) f = Inr c"
  shows "policy_queue u f T q =
           Inr (q\<lparr>maxusernodes :=
                    (if 0 < num_used u q then max 0 (max 1 c - num_used u q)
                     else max 1 (max 1 c - num_used u q)),
                  maxtime := min T (maxtime q)\<rparr>)"
proof -
  have "0 \<le> num_used u q" by (simp add: num_used_def)
  then show ?thesis
    using assms by (auto simp: policy_queue_def Let_def and_then_def)
qed

lemma policy_queue_Inl:
  "ceil_product (totalnodes q) f = Inl e \<Longrightarrow> policy_queue u f T q = Inl e"
  by (simp add: policy_queue_def Let_def and_then_def)

lemma UserPolicy_get_queues_eq:
  assumes "get_queues u py_eval getoutput = Inr qs"
    and "timedelta_hms (hour now) (minute now) (second now) = Inr dt"
    and "regime p (weekday now) dt = (f, T)"
    and "sequence (map (policy_queue u f T) qs) = Inr qs'"
  shows "UserPolicy_get_queues p u py_eval getoutput now = Inr [q' \<leftarrow> qs'. 0 < maxusernodes q']"
  using assms by (simp add: UserPolicy_get_queues_def apply_policy_def and_then_def)

text \<open>
  C5. For every queue \<open>q\<close> the loop of \<open>UserPolicy.get_queues\<close> goes through, with occupancy
  fraction \<open>f\<close> and wall-time ceiling \<open>T\<close>: when \<open>ceil(q.totalnodes * f)\<close>, a float product,
  has the value \<open>c\<close>, the allowed nodes are \<open>max(1, c)\<close>; \<open>maxusernodes\<close> becomes the allowed
  nodes minus the number of the local user's jobs in \<open>q\<close>, but at least 0 when the user
  has jobs there and at least 1 otherwise; \<open>maxtime\<close> becomes the lesser of \<open>T\<close> and the
  queue's own (when \<open>ceil\<close> raises, so does the loop). \<open>UserPolicy.get_queues\<close> returns
  exactly the queues so left with \<open>maxusernodes > 0\<close>, in their order. With 10 nodes, 2
  jobs of the user and \<open>f = 0.5\<close> the queue is kept with \<open>maxusernodes = 3\<close>; with 0 nodes,
  no job of the user and any finite \<open>f\<close> it is kept with \<open>maxusernodes = 1\<close>.
\<close>

theorem policy_queue_capacity:
  "(ceil_product (totalnodes q) f = Inr c \<longrightarrow>
      policy_queue u f T q =
        Inr (q\<lparr>maxusernodes :=
                 (if 0 < num_used u q then max 0 (max 1 c - num_used u q)
                  else max 1 (max 1 c - num_used u q)),
               maxtime := min T (maxtime q)\<rparr>)) \<and>
   (ceil_product (totalnodes q) f = Inl e \<longrightarrow> policy_queue u f T q = Inl e) \<and>
   (get_queues u py_eval getoutput = Inr qs \<and>
    timedelta_hms (hour now) (minute now) (second now) = Inr dt \<and>
    regime p (weekday now) dt = (f, T) \<and>
    sequence (map (policy_queue u f T) qs) = Inr qs' \<longrightarrow>
      UserPolicy_get_queues p u py_eval getoutput now =
        Inr [q' \<leftarrow> qs'. 0 < maxusernodes q']) \<and>
   (totalnodes q = 10 \<and> num_used u q = 2 \<longrightarrow>
      policy_queue u (Finite (1 / 2)) T q =
        Inr (q\<lparr>maxusernodes := 3, maxtime := min T (maxtime q)\<rparr>) \<and>
      apply_policy u (Finite (1 / 2)) T [q] =
        Inr [q\<lparr>maxusernodes := 3, maxtime := min T (maxtime q)\<rparr>]) \<and>
   (totalnodes q = 0 \<and> num_used u q = 0 \<longrightarrow>
      policy_queue u (Finite r) T q =
        Inr (q\<lparr>maxusernodes := 1, maxtime := min T (maxtime q)\<rparr>) \<and>
      apply_policy u (Finite r) T [q] =
        Inr [q\<lparr>maxusernodes := 1, maxtime := min T (maxtime q)\<rparr>])"
proof -
  have 1: "ceil_product (totalnodes q) f = Inr c \<longrightarrow>
      policy_queue u f T q =
        Inr (q\<lparr>maxusernodes :=
                 (if 0 < num_used u q then max 0 (max 1 c - num_used u q)
                  else max 1 (max 1 c - num_used u q)),
               maxtime := min T (maxtime q)\<rparr>)"
    using policy_queue_Inr by blast
  have 2: "ceil_product (totalnodes q) f = Inl e \<longrightarrow> policy_queue u f T q = Inl e"
    using policy_queue_Inl by blast
  have 3: "get_queues u py_eval getoutput = Inr qs \<and>
    timedelta_hms (hour now) (minute now) (second now) = Inr dt \<and>
    regime p (weekday now) dt = (f, T) \<and>
    sequence (map (policy_queue u f T) qs) = Inr qs' \<longrightarrow>
      UserPolicy_get_queues p u py_eval getoutput now =
        Inr [q' \<leftarrow> qs'. 0 < maxusernodes q']"
    using UserPolicy_get_queues_eq by blast
  have 4: "totalnodes q = 10 \<and> num_used u q = 2 \<longrightarrow>
      policy_queue u (Finite (1 / 2)) T q =
        Inr (q\<lparr>maxusernodes := 3, maxtime := min T (maxtime q)\<rparr>) \<and>
      apply_policy u (Finite (1 / 2)) T [q] =
        Inr [q\<lparr>maxusernodes := 3, maxtime := min T (maxtime q)\<rparr>]"
  proof (intro impI, elim conjE)
    assume t: "totalnodes q = 10" and n: "num_used u q = 2"
    have c: "ceil_product (totalnodes q) (Finite (1 / 2)) = Inr 5"
      unfolding t by (rule ceil_product_ten_half)
    have p: "policy_queue u (Finite (1 / 2)) T q =
               Inr (q\<lparr>maxusernodes := 3, maxtime := min T (maxtime q)\<rparr>)"
      unfolding policy_queue_Inr [OF c] using n by simp
    show "policy_queue u (Finite (1 / 2)) T q =
        Inr (q\<lparr>maxusernodes := 3, maxtime := min T (maxtime q)\<rparr>) \<and>
      apply_policy u (Finite (1 / 2)) T [q] =
        Inr [q\<lparr>maxusernodes := 3, maxtime := min T (maxtime q)\<rparr>]"
      by (simp add: p apply_policy_def and_then_def)
  qed
  have 5: "totalnodes q = 0 \<and> num_used u q = 0 \<longrightarrow>
      policy_queue u (Finite r) T q =
        Inr (q\<lparr>maxusernodes := 1, maxtime := min T (maxtime q)\<rparr>) \<and>
      apply_policy u (Finite r) T [q] =
        Inr [q\<lparr>maxusernodes := 1, maxtime := min T (maxtime q)\<rparr>]"
  proof (intro impI, elim conjE)
    assume t: "totalnodes q = 0" and n: "num_used u q = 0"
    have c: "ceil_product (totalnodes q) (Finite r) = Inr 0"
      unfolding t by (rule ceil_product_zero)
    have p: "policy_queue u (Finite r) T q =
               Inr (q\<lparr>maxusernodes := 1, maxtime := min T (maxtime q)\<rparr>)"
      unfolding policy_queue_Inr [OF c] using n by simp
    show "policy_queue u (Finite r) T q =
        Inr (q\<lparr>maxusernodes := 1, maxtime := min T (maxtime q)\<rparr>) \<and>
      apply_policy u (Finite r) T [q] =
        Inr [q\<lparr>maxusernodes := 1, maxtime := min T (maxtime q)\<rparr>]"
      by (simp add: p apply_policy_def and_then_def)
  qed
  from 1 2 3 4 5 show ?thesis by blast
qed

theorem policy_queue_capacity_witness:
  "get_queues ''me'' example_eval example_getoutput = Inr example_linked \<and>
   regime nice_user (weekday saturday_noon) (12 * 3600 * 1000000) =
     (Finite (1 / 2), 2 * 3600 * 1000000) \<and>
   sequence (map (policy_queue ''me'' (Finite (1 / 2)) (2 * 3600 * 1000000)) example_linked) =
     Inr example_adjusted \<and>
   UserPolicy_get_queues nice_user ''me'' example_eval example_getoutput saturday_noon =
     Inr [q' \<leftarrow> example_adjusted. 0 < maxusernodes q'] \<and>
   map (\<lambda>q. (name q, totalnodes q, maxusernodes q))
     [q' \<leftarrow> example_adjusted. 0 < maxusernodes q'] =
     [(''knl_7210'', 10, 3), (''testq'', 0, 1)] \<and>
   totalnodes knl = 10 \<and> num_used ''me'' knl = 2 \<and>
   ceil_product (totalnodes knl) (Finite (1 / 2)) = Inr 5 \<and>
   policy_queue ''me'' (Finite (1 / 2)) (2 * 3600 * 1000000) knl =
     Inr (knl\<lparr>maxusernodes := 3, maxtime := min (2 * 3600 * 1000000) (maxtime knl)\<rparr>)"
proof -
  have g: "get_queues ''me'' example_eval example_getoutput = Inr example_linked"
    by code_simp
  have d: "timedelta_hms (hour saturday_noon) (minute saturday_noon) (second saturday_noon) =
             Inr (12 * 3600 * 1000000)"
    by (simp add: saturday_noon_def timedelta_hms_def)
  have r: "regime nice_user (weekday saturday_noon) (12 * 3600 * 1000000) =
             (Finite (1 / 2), 2 * 3600 * 1000000)"
    by (simp add: regime_def nice_user_def saturday_noon_def)
  have s: "sequence (map (policy_queue ''me'' (Finite (1 / 2)) (2 * 3600 * 1000000))
             example_linked) = Inr example_adjusted"
    by code_simp
  have v: "map (\<lambda>q. (name q, totalnodes q, maxusernodes q))
     [q' \<leftarrow> example_adjusted. 0 < maxusernodes q'] =
     [(''knl_7210'', 10, 3), (''testq'', 0, 1)]"
    by code_simp
  have t: "totalnodes knl = 10" by code_simp
  have n: "num_used ''me'' knl = 2" by code_simp
  have c: "ceil_product (totalnodes knl) (Finite (1 / 2)) = Inr 5"
    unfolding t by (rule ceil_product_ten_half)
  note th = policy_queue_capacity [where q = knl and u = "''me''" and f = "Finite (1 / 2)"
      and T = "2 * 3600 * 1000000" and c = 5 and p = nice_user and py_eval = example_eval
      and getoutput = example_getoutput and now = saturday_noon and qs = example_linked
      and qs' = example_adjusted and dt = "12 * 3600 * 1000000"]
  from th g d r s have 1: "UserPolicy_get_queues nice_user ''me'' example_eval
      example_getoutput saturday_noon = Inr [q' \<leftarrow> example_adjusted. 0 < maxusernodes q']"
    by blast
  from th t n have 2: "policy_queue ''me'' (Finite (1 / 2)) (2 * 3600 * 1000000) knl =
     Inr (knl\<lparr>maxusernodes := 3, maxtime := min (2 * 3600 * 1000000) (maxtime knl)\<rparr>)"
    by blast
  from g r s 1 v t n c 2 show ?thesis by blast
qed

end
